theory Spec2Isabelle
  imports Complex_Main "HOL-Library.Log_Nat"
begin

section \<open>Python floats\<close>

text \<open>
  A Python float is an IEEE 754 binary64 number: a rational with a 53-bit significand, plus or
  minus infinity, or nan. The model keeps the rational a finite float denotes, so comparisons
  are exact, as they are in Python. The sign of zero is not kept: no operation of the
  validator distinguishes the two zeros.
\<close>

datatype pyfloat = Finite rat | PosInf | NegInf | NaN

text \<open>
  Rounding a rational to the nearest double, ties to even. \<open>floor_log2 x\<close> is the exponent of
  a positive \<open>x\<close>; doubles with exponent \<open>e\<close> are the multiples of \<open>quantum e\<close>, which is
  \<open>2^(e - 52)\<close>, and the exponent of a subnormal is that of the smallest normal number,
  \<open>- 1022\<close>. A result of magnitude \<open>2^1024\<close> or more is an infinity.
\<close>

definition floor_log2 :: "rat \<Rightarrow> int" where
  "floor_log2 x = (if 1 \<le> x then bitlen \<lfloor>x\<rfloor> - 1 else - bitlen (\<lceil>1 / x\<rceil> - 1))"

definition round_half_even :: "rat \<Rightarrow> int" where
  "round_half_even y =
     (let f = \<lfloor>y\<rfloor>; d = y - of_int f
      in if d < 1 / 2 then f else if 1 / 2 < d then f + 1 else if even f then f else f + 1)"

definition quantum :: "int \<Rightarrow> rat" where
  "quantum e = (if 52 \<le> e then 2 ^ nat (e - 52) else 1 / 2 ^ nat (52 - e))"

definition round_double :: "rat \<Rightarrow> pyfloat" where
  "round_double x =
     (if x = 0 then Finite 0
      else
        (let e = max (floor_log2 \<bar>x\<bar>) (- 1022);
             q = quantum e;
             r = of_int (round_half_even (x / q)) * q
         in if 2 ^ 1024 \<le> \<bar>r\<bar> then (if 0 < x then PosInf else NegInf) else Finite r))"

text \<open>
  Float arithmetic: the exact result of two finite operands, rounded; the IEEE rules for the
  special values. Python raises no exception for an overflow of \<^verbatim>\<open>+\<close>, \<^verbatim>\<open>-\<close> or \<^verbatim>\<open>*\<close>
  on floats: the result is an infinity.
\<close>

fun float_neg :: "pyfloat \<Rightarrow> pyfloat" where
  "float_neg (Finite x) = Finite (- x)"
| "float_neg PosInf = NegInf"
| "float_neg NegInf = PosInf"
| "float_neg NaN = NaN"

fun float_add :: "pyfloat \<Rightarrow> pyfloat \<Rightarrow> pyfloat" where
  "float_add (Finite x) (Finite y) = round_double (x + y)"
| "float_add NaN b = NaN"
| "float_add a NaN = NaN"
| "float_add PosInf NegInf = NaN"
| "float_add NegInf PosInf = NaN"
| "float_add PosInf b = PosInf"
| "float_add a PosInf = PosInf"
| "float_add NegInf b = NegInf"
| "float_add a NegInf = NegInf"

definition float_sub :: "pyfloat \<Rightarrow> pyfloat \<Rightarrow> pyfloat" where
  "float_sub a b = float_add a (float_neg b)"

text \<open>The sign of a float that is not nan: \<open>- 1\<close>, \<open>0\<close> or \<open>1\<close>.\<close>

fun float_sign :: "pyfloat \<Rightarrow> int" where
  "float_sign (Finite x) = (if x < 0 then - 1 else if x = 0 then 0 else 1)"
| "float_sign PosInf = 1"
| "float_sign NegInf = - 1"
| "float_sign NaN = 0"

fun float_mul :: "pyfloat \<Rightarrow> pyfloat \<Rightarrow> pyfloat" where
  "float_mul (Finite x) (Finite y) = round_double (x * y)"
| "float_mul NaN b = NaN"
| "float_mul a NaN = NaN"
| "float_mul a b =
     (if float_sign a * float_sign b = 0 then NaN
      else if 0 < float_sign a * float_sign b then PosInf else NegInf)"

fun float_abs :: "pyfloat \<Rightarrow> pyfloat" where
  "float_abs (Finite x) = Finite \<bar>x\<bar>"
| "float_abs PosInf = PosInf"
| "float_abs NegInf = PosInf"
| "float_abs NaN = NaN"

text \<open>\<^verbatim>\<open>a < b\<close> and \<^verbatim>\<open>a <= b\<close>: false whenever an operand is nan.\<close>

fun float_less :: "pyfloat \<Rightarrow> pyfloat \<Rightarrow> bool" where
  "float_less (Finite x) (Finite y) = (x < y)"
| "float_less NaN b = False"
| "float_less a NaN = False"
| "float_less a NegInf = False"
| "float_less PosInf b = False"
| "float_less a PosInf = True"
| "float_less NegInf b = True"

definition float_le :: "pyfloat \<Rightarrow> pyfloat \<Rightarrow> bool" where
  "float_le a b = (float_less a b \<or> (a \<noteq> NaN \<and> a = b))"

section \<open>Python values and the builtins the validator calls\<close>

text \<open>
  A proposed field carries \<^verbatim>\<open>value: Optional[Any]\<close>, decoded from JSON: null, a boolean,
  an integer, a float, a string, an array or an object. Python's \<^verbatim>\<open>int\<close> is unbounded and is
  modelled by \<^typ>\<open>int\<close>. The contents of arrays and objects play no role in the validator
  and are left out.
\<close>

datatype pyval = PNone | PBool bool | PInt int | PFloat pyfloat | PStr string | PList | PDict

datatype pyerror = ValueError | TypeError | OverflowError

text \<open>Sequencing of computations that may raise: the first exception aborts the rest.\<close>

definition try_then :: "pyerror + 'a \<Rightarrow> ('a \<Rightarrow> pyerror + 'b) \<Rightarrow> pyerror + 'b" where
  "try_then m f = (case m of Inl e \<Rightarrow> Inl e | Inr x \<Rightarrow> f x)"

text \<open>
  A loop that appends the findings of each element to one list, in order; an exception in
  the body leaves the loop.
\<close>

primrec collect :: "('a \<Rightarrow> pyerror + 'b list) \<Rightarrow> 'a list \<Rightarrow> pyerror + 'b list" where
  "collect f [] = Inr []"
| "collect f (x # xs) =
     (case f x of
        Inl e \<Rightarrow> Inl e
      | Inr found \<Rightarrow> (case collect f xs of Inl e \<Rightarrow> Inl e | Inr more \<Rightarrow> Inr (found @ more)))"

text \<open>\<^verbatim>\<open>d.get(key, default)\<close>, applied to the entry \<open>d key\<close> of a dictionary.\<close>

definition dict_get :: "'a option \<Rightarrow> 'a \<Rightarrow> 'a" where
  "dict_get entry dflt = (case entry of None \<Rightarrow> dflt | Some v \<Rightarrow> v)"

text \<open>
  \<^verbatim>\<open>float(n)\<close> for an integer rounds to the nearest double and raises OverflowError when
  that is out of range, which is from \<open>2^1024 - 2^970\<close> on. The same conversion is applied
  to an integer operand of mixed arithmetic and to an integer formatted as a float.
\<close>

definition float_overflow_bound :: int where
  "float_overflow_bound = 2 ^ 1024 - 2 ^ 970"

definition int_to_float :: "int \<Rightarrow> pyerror + pyfloat" where
  "int_to_float n =
     (if \<bar>n\<bar> < float_overflow_bound then Inr (round_double (of_int n)) else Inl OverflowError)"

text \<open>
  \<^verbatim>\<open>float(value)\<close>. Parsing a string is Python's own: the parameter \<open>sf\<close> gives the float a
  string denotes, and \<open>None\<close> where \<^verbatim>\<open>float\<close> raises ValueError.
\<close>

fun py_float :: "(string \<Rightarrow> pyfloat option) \<Rightarrow> pyval \<Rightarrow> pyerror + pyfloat" where
  "py_float sf PNone = Inl TypeError"
| "py_float sf (PBool b) = Inr (Finite (if b then 1 else 0))"
| "py_float sf (PInt n) = int_to_float n"
| "py_float sf (PFloat x) = Inr x"
| "py_float sf (PStr s) = (case sf s of None \<Rightarrow> Inl ValueError | Some x \<Rightarrow> Inr x)"
| "py_float sf PList = Inl TypeError"
| "py_float sf PDict = Inl TypeError"

text \<open>The operands of integer arithmetic: \<^verbatim>\<open>bool\<close> is a subclass of \<^verbatim>\<open>int\<close>.\<close>

fun as_int :: "pyval \<Rightarrow> int option" where
  "as_int (PBool b) = Some (if b then 1 else 0)"
| "as_int (PInt n) = Some n"
| "as_int v = None"

text \<open>A number as an operand of float arithmetic; \<open>None\<close> for a value that is no number.\<close>

fun as_float :: "pyval \<Rightarrow> (pyerror + pyfloat) option" where
  "as_float (PBool b) = Some (Inr (Finite (if b then 1 else 0)))"
| "as_float (PInt n) = Some (int_to_float n)"
| "as_float (PFloat x) = Some (Inr x)"
| "as_float v = None"

text \<open>
  The value of a number as comparisons see it: Python compares an integer with a float
  exactly, without converting the integer.
\<close>

fun num_val :: "pyval \<Rightarrow> pyfloat option" where
  "num_val (PBool b) = Some (Finite (if b then 1 else 0))"
| "num_val (PInt n) = Some (Finite (of_int n))"
| "num_val (PFloat x) = Some x"
| "num_val v = None"

text \<open>
  A binary operator on two numbers: integer arithmetic when both are integers, float
  arithmetic (after converting an integer operand) otherwise. \<open>None\<close> when an operand is
  not a number.
\<close>

definition num_op ::
  "(int \<Rightarrow> int \<Rightarrow> int) \<Rightarrow> (pyfloat \<Rightarrow> pyfloat \<Rightarrow> pyfloat) \<Rightarrow> pyval \<Rightarrow> pyval
     \<Rightarrow> (pyerror + pyval) option" where
  "num_op iop fop a b =
     (case (as_int a, as_int b) of
        (Some x, Some y) \<Rightarrow> Some (Inr (PInt (iop x y)))
      | _ \<Rightarrow>
        (case (as_float a, as_float b) of
           (Some fa, Some fb) \<Rightarrow>
             Some (try_then fa (\<lambda>x. try_then fb (\<lambda>y. Inr (PFloat (fop x y)))))
         | _ \<Rightarrow> None))"

definition py_add :: "pyval \<Rightarrow> pyval \<Rightarrow> pyerror + pyval" where
  "py_add a b =
     (case num_op (+) float_add a b of
        Some r \<Rightarrow> r
      | None \<Rightarrow>
        (case (a, b) of
           (PStr s, PStr t) \<Rightarrow> Inr (PStr (s @ t))
         | (PList, PList) \<Rightarrow> Inr PList
         | _ \<Rightarrow> Inl TypeError))"

definition py_sub :: "pyval \<Rightarrow> pyval \<Rightarrow> pyerror + pyval" where
  "py_sub a b = (case num_op (-) float_sub a b of Some r \<Rightarrow> r | None \<Rightarrow> Inl TypeError)"

text \<open>A sequence times an integer repeats the sequence; times a float it is a TypeError.\<close>

definition py_mul :: "pyval \<Rightarrow> pyval \<Rightarrow> pyerror + pyval" where
  "py_mul a b =
     (case num_op (*) float_mul a b of
        Some r \<Rightarrow> r
      | None \<Rightarrow>
        (case (a, as_int b) of
           (PStr s, Some n) \<Rightarrow> Inr (PStr (concat (replicate (nat n) s)))
         | (PList, Some n) \<Rightarrow> Inr PList
         | _ \<Rightarrow>
           (case (as_int a, b) of
              (Some n, PStr s) \<Rightarrow> Inr (PStr (concat (replicate (nat n) s)))
            | (Some n, PList) \<Rightarrow> Inr PList
            | _ \<Rightarrow> Inl TypeError)))"

fun py_abs :: "pyval \<Rightarrow> pyerror + pyval" where
  "py_abs (PBool b) = Inr (PInt (if b then 1 else 0))"
| "py_abs (PInt n) = Inr (PInt \<bar>n\<bar>)"
| "py_abs (PFloat x) = Inr (PFloat (float_abs x))"
| "py_abs v = Inl TypeError"

text \<open>
  \<^verbatim>\<open>v > k\<close>, \<^verbatim>\<open>v < k\<close> and \<^verbatim>\<open>v == k\<close> for an integer literal \<open>k\<close>. Ordering a value that
  is no number against an integer is a TypeError; equality never raises.
\<close>

definition py_gt_int :: "pyval \<Rightarrow> int \<Rightarrow> pyerror + bool" where
  "py_gt_int v k =
     (case num_val v of None \<Rightarrow> Inl TypeError | Some x \<Rightarrow> Inr (float_less (Finite (of_int k)) x))"

definition py_lt_int :: "pyval \<Rightarrow> int \<Rightarrow> pyerror + bool" where
  "py_lt_int v k =
     (case num_val v of None \<Rightarrow> Inl TypeError | Some x \<Rightarrow> Inr (float_less x (Finite (of_int k))))"

definition py_eq_int :: "pyval \<Rightarrow> int \<Rightarrow> bool" where
  "py_eq_int v k = (case num_val v of None \<Rightarrow> False | Some x \<Rightarrow> x = Finite (of_int k))"

text \<open>
  \<^verbatim>\<open>sum(xs)\<close>: the elements added from the left to the integer 0, each float addition
  rounded (CPython before 3.12; later versions compensate the rounding of a float sum).
\<close>

fun py_sum_from :: "pyval \<Rightarrow> pyval list \<Rightarrow> pyerror + pyval" where
  "py_sum_from acc [] = Inr acc"
| "py_sum_from acc (x # xs) =
     (case py_add acc x of Inl e \<Rightarrow> Inl e | Inr acc' \<Rightarrow> py_sum_from acc' xs)"

definition py_sum :: "pyval list \<Rightarrow> pyerror + pyval" where
  "py_sum xs = py_sum_from (PInt 0) xs"

text \<open>
  The two replacement fields of the mismatch messages. \<^verbatim>\<open>f"{v}"\<close> is \<^verbatim>\<open>str(v)\<close> for the
  values at hand; for an integer it raises ValueError beyond the interpreter's limit on
  the digits of a decimal conversion, 4300 by default. \<^verbatim>\<open>f"{v:.2f}"\<close> converts an integer
  to a float first, is defined for every float, raises ValueError for a string (an unknown
  format code) and TypeError for null, an array or an object. The model of a message keeps
  the value, so both functions return it unchanged when the formatting succeeds.
\<close>

definition int_max_str_digits :: nat where
  "int_max_str_digits = 4300"

fun py_str :: "pyval \<Rightarrow> pyerror + pyval" where
  "py_str (PInt n) = (if \<bar>n\<bar> < 10 ^ int_max_str_digits then Inr (PInt n) else Inl ValueError)"
| "py_str v = Inr v"

fun py_format_2f :: "pyval \<Rightarrow> pyerror + pyval" where
  "py_format_2f PNone = Inl TypeError"
| "py_format_2f (PBool b) = Inr (PBool b)"
| "py_format_2f (PInt n) = try_then (int_to_float n) (\<lambda>x. Inr (PInt n))"
| "py_format_2f (PFloat x) = Inr (PFloat x)"
| "py_format_2f (PStr s) = Inl ValueError"
| "py_format_2f PList = Inl TypeError"
| "py_format_2f PDict = Inl TypeError"

section \<open>Data model (models.py and the schema dictionaries)\<close>

text \<open>
  \<^verbatim>\<open>TemplateType\<close> is a \<^verbatim>\<open>str\<close> enumeration: its members are strings, equal to and hashed like
  their values. The model takes the type to be \<^typ>\<open>string\<close>, so that a template type
  outside the enumeration can be written.
\<close>

type_synonym TemplateType = string

definition OWN_FUNDS_CR1 :: TemplateType where
  "OWN_FUNDS_CR1 = ''own_funds_cr1''"

definition CAPITAL_REQUIREMENTS_CR2 :: TemplateType where
  "CAPITAL_REQUIREMENTS_CR2 = ''capital_requirements_cr2''"

record TemplateField =
  field_id :: string
  field_name :: string
  value' :: pyval
  justification :: string
  regulatory_references :: "string list"
  confidence_score :: rat

text \<open>
  The message of a finding is an f-string; the model keeps which text it is and the values
  formatted into it, not the formatted characters.
\<close>

datatype message =
    Required_missing string
  | Failed_validation string string
  | Low_confidence rat string
  | CET1_mismatch pyval pyval
  | Tier1_mismatch pyval pyval
  | Own_funds_mismatch pyval pyval
  | CET1_negative
  | RWA_mismatch pyval pyval
  | No_credit_risk

record ValidationIssue =
  severity :: string
  field_id :: "string option"
  message :: message
  rule :: string

text \<open>
  A schema is a dictionary. The keys the code reads with \<^verbatim>\<open>.get(key, default)\<close> may be
  absent (\<open>None\<close>); the keys it reads with \<^verbatim>\<open>[key]\<close> are present in every field definition.
\<close>

record FieldDef =
  field_id :: string
  field_name :: string
  data_type :: string
  required :: "bool option"
  validation_rules :: "string list option"
  formula :: "string option"

record Section =
  section_id :: string
  section_name :: string
  fields' :: "FieldDef list option"

record TemplateSchema =
  template_name :: "string option"
  description :: "string option"
  sections :: "Section list option"

record ValidationSummary =
  total_issues :: nat
  errors :: nat
  warnings :: nat
  info :: nat
  is_valid :: bool

section \<open>Template catalog (template_service.py)\<close>

definition get_cr1_schema :: TemplateSchema where
  "get_cr1_schema =
    \<lparr>template_name = Some ''CR1 - Own Funds'',
     description = Some ''Breakdown of institution's own funds and regulatory capital'',
     sections = Some
      [\<lparr>section_id = ''cet1_capital'',
        section_name = ''Common Equity Tier 1 Capital'',
        fields' = Some
          [\<lparr>FieldDef.field_id = ''CR1_010_010'',
             FieldDef.field_name = ''Capital instruments and related share premium accounts'',
             data_type = ''number'', required = Some True,
             FieldDef.validation_rules = Some [''must_be_positive''],
             formula = None\<rparr>,
           \<lparr>FieldDef.field_id = ''CR1_020_010'',
             FieldDef.field_name = ''Retained earnings'',
             data_type = ''number'', required = Some True,
             FieldDef.validation_rules = Some [],
             formula = None\<rparr>,
           \<lparr>FieldDef.field_id = ''CR1_030_010'',
             FieldDef.field_name = ''Accumulated other comprehensive income'',
             data_type = ''number'', required = Some True,
             FieldDef.validation_rules = Some [],
             formula = None\<rparr>,
           \<lparr>FieldDef.field_id = ''CR1_040_010'',
             FieldDef.field_name = ''Other reserves'',
             data_type = ''number'', required = Some False,
             FieldDef.validation_rules = Some [],
             formula = None\<rparr>,
           \<lparr>FieldDef.field_id = ''CR1_050_010'',
             FieldDef.field_name = ''Funds for general banking risk'',
             data_type = ''number'', required = Some False,
             FieldDef.validation_rules = Some [],
             formula = None\<rparr>]\<rparr>,
       \<lparr>section_id = ''cet1_adjustments'',
        section_name = ''CET1 Regulatory Adjustments'',
        fields' = Some
          [\<lparr>FieldDef.field_id = ''CR1_100_010'',
             FieldDef.field_name = ''Total regulatory adjustments to CET1'',
             data_type = ''number'', required = Some True,
             FieldDef.validation_rules = Some [''must_be_negative_or_zero''],
             formula = None\<rparr>,
           \<lparr>FieldDef.field_id = ''CR1_110_010'',
             FieldDef.field_name = ''Intangible assets (net of tax)'',
             data_type = ''number'', required = Some True,
             FieldDef.validation_rules = Some [],
             formula = None\<rparr>,
           \<lparr>FieldDef.field_id = ''CR1_120_010'',
             FieldDef.field_name = ''Deferred tax assets'',
             data_type = ''number'', required = Some True,
             FieldDef.validation_rules = Some [],
             formula = None\<rparr>]\<rparr>,
       \<lparr>section_id = ''tier1_tier2'',
        section_name = ''Additional Tier 1 and Tier 2 Capital'',
        fields' = Some
          [\<lparr>FieldDef.field_id = ''CR1_150_010'',
             FieldDef.field_name = ''Additional Tier 1 capital'',
             data_type = ''number'', required = Some True,
             FieldDef.validation_rules = Some [],
             formula = None\<rparr>,
           \<lparr>FieldDef.field_id = ''CR1_200_010'',
             FieldDef.field_name = ''Tier 2 capital'',
             data_type = ''number'', required = Some True,
             FieldDef.validation_rules = Some [],
             formula = None\<rparr>]\<rparr>,
       \<lparr>section_id = ''totals'',
        section_name = ''Total Own Funds'',
        fields' = Some
          [\<lparr>FieldDef.field_id = ''CR1_500_010'',
             FieldDef.field_name = ''Total Common Equity Tier 1 capital'',
             data_type = ''number'', required = Some True,
             FieldDef.validation_rules = Some [''must_be_positive''],
             formula = Some ''sum(CR1_010_010:CR1_050_010) - CR1_100_010''\<rparr>,
           \<lparr>FieldDef.field_id = ''CR1_600_010'',
             FieldDef.field_name = ''Total Tier 1 capital'',
             data_type = ''number'', required = Some True,
             FieldDef.validation_rules = Some [''must_be_positive''],
             formula = Some ''CR1_500_010 + CR1_150_010''\<rparr>,
           \<lparr>FieldDef.field_id = ''CR1_700_010'',
             FieldDef.field_name = ''Total own funds'',
             data_type = ''number'', required = Some True,
             FieldDef.validation_rules = Some [''must_be_positive''],
             formula = Some ''CR1_600_010 + CR1_200_010''\<rparr>]\<rparr>]\<rparr>"

definition get_cr2_schema :: TemplateSchema where
  "get_cr2_schema =
    \<lparr>template_name = Some ''CR2 - Capital Requirements'',
     description = Some ''Institution's capital requirements by risk type'',
     sections = Some
      [\<lparr>section_id = ''credit_risk'',
        section_name = ''Credit Risk'',
        fields' = Some
          [\<lparr>FieldDef.field_id = ''CR2_010_010'',
             FieldDef.field_name = ''Credit risk (Standardised approach) - RWA'',
             data_type = ''number'', required = Some True,
             FieldDef.validation_rules = Some [''must_be_positive''],
             formula = None\<rparr>,
           \<lparr>FieldDef.field_id = ''CR2_020_010'',
             FieldDef.field_name = ''Credit risk (IRB approach) - RWA'',
             data_type = ''number'', required = Some False,
             FieldDef.validation_rules = Some [''must_be_positive''],
             formula = None\<rparr>]\<rparr>,
       \<lparr>section_id = ''other_risks'',
        section_name = ''Other Risk Types'',
        fields' = Some
          [\<lparr>FieldDef.field_id = ''CR2_050_010'',
             FieldDef.field_name = ''Market risk - Own funds requirement'',
             data_type = ''number'', required = Some True,
             FieldDef.validation_rules = Some [],
             formula = None\<rparr>,
           \<lparr>FieldDef.field_id = ''CR2_060_010'',
             FieldDef.field_name = ''Operational risk - Own funds requirement'',
             data_type = ''number'', required = Some True,
             FieldDef.validation_rules = Some [''must_be_positive''],
             formula = None\<rparr>]\<rparr>,
       \<lparr>section_id = ''total_requirements'',
        section_name = ''Total Capital Requirements'',
        fields' = Some
          [\<lparr>FieldDef.field_id = ''CR2_100_010'',
             FieldDef.field_name = ''Total risk exposure amount'',
             data_type = ''number'', required = Some True,
             FieldDef.validation_rules = Some [''must_be_positive''],
             formula = Some ''sum(CR2_010_010, CR2_020_010) + (CR2_050_010 + CR2_060_010) * 12.5''\<rparr>]\<rparr>]\<rparr>"

text \<open>
  \<^verbatim>\<open>self.templates\<close> and \<^verbatim>\<open>get_template_schema\<close>: the dictionary of the known template
  types, read with the empty dictionary as default.
\<close>

definition templates :: "TemplateType \<rightharpoonup> TemplateSchema" where
  "templates =
     [OWN_FUNDS_CR1 \<mapsto> get_cr1_schema, CAPITAL_REQUIREMENTS_CR2 \<mapsto> get_cr2_schema]"

definition empty_schema :: TemplateSchema where
  "empty_schema = \<lparr>template_name = None, description = None, sections = None\<rparr>"

definition get_template_schema :: "TemplateType \<Rightarrow> TemplateSchema" where
  "get_template_schema template_type = dict_get (templates template_type) empty_schema"

text \<open>
  The field definitions of a schema, section by section, in declaration order:
  the two loops of \<^verbatim>\<open>get_all_field_ids\<close>.
\<close>

definition schema_field_defs :: "TemplateSchema \<Rightarrow> FieldDef list" where
  "schema_field_defs schema =
     concat (map (\<lambda>section. dict_get (fields' section) []) (dict_get (sections schema) []))"

definition get_all_field_ids :: "TemplateType \<Rightarrow> string list" where
  "get_all_field_ids template_type =
     map FieldDef.field_id (schema_field_defs (get_template_schema template_type))"

section \<open>Rule registry (validation_service.py)\<close>

text \<open>
  The methods \<^verbatim>\<open>_validate_positive\<close>, \<^verbatim>\<open>_validate_negative_or_zero\<close>, \<^verbatim>\<open>_validate_required\<close>,
  \<^verbatim>\<open>_validate_cross_field_rules\<close>, \<^verbatim>\<open>_validate_cr1_rules\<close> and \<^verbatim>\<open>_validate_cr2_rules\<close> keep their
  names without the leading underscore. The \<^verbatim>\<open>except (ValueError, TypeError)\<close> clause of the
  first two catches what \<^verbatim>\<open>float\<close> raises on a string that is no number, an array or an
  object; OverflowError passes through it. The values of the registry have one type, so
  \<open>validate_required\<close>, which never raises, returns a result of that type as well.
\<close>

definition validate_positive :: "(string \<Rightarrow> pyfloat option) \<Rightarrow> pyval \<Rightarrow> pyerror + bool" where
  "validate_positive sf v =
     (if v = PNone then Inr False
      else
        (case py_float sf v of
           Inr x \<Rightarrow> Inr (float_less (Finite 0) x)
         | Inl ValueError \<Rightarrow> Inr False
         | Inl TypeError \<Rightarrow> Inr False
         | Inl OverflowError \<Rightarrow> Inl OverflowError))"

definition validate_negative_or_zero :: "(string \<Rightarrow> pyfloat option) \<Rightarrow> pyval \<Rightarrow> pyerror + bool" where
  "validate_negative_or_zero sf v =
     (if v = PNone then Inr True
      else
        (case py_float sf v of
           Inr x \<Rightarrow> Inr (float_le x (Finite 0))
         | Inl ValueError \<Rightarrow> Inr False
         | Inl TypeError \<Rightarrow> Inr False
         | Inl OverflowError \<Rightarrow> Inl OverflowError))"

definition validate_required :: "pyval \<Rightarrow> pyerror + bool" where
  "validate_required v = Inr (v \<noteq> PNone)"

definition validation_rules ::
  "(string \<Rightarrow> pyfloat option) \<Rightarrow> (string \<rightharpoonup> (pyval \<Rightarrow> pyerror + bool))" where
  "validation_rules sf =
     [''must_be_positive'' \<mapsto> validate_positive sf,
      ''must_be_negative_or_zero'' \<mapsto> validate_negative_or_zero sf,
      ''required_field'' \<mapsto> validate_required]"

section \<open>Per-field validation\<close>

text \<open>\<^verbatim>\<open>{f.field_id: f for f in fields}\<close>: a later field replaces an earlier one of the same id.\<close>

definition field_map :: "TemplateField list \<Rightarrow> (string \<rightharpoonup> TemplateField)" where
  "field_map flds = foldl (\<lambda>m f. m(TemplateField.field_id f \<mapsto> f)) Map.empty flds"

text \<open>The loop over the rule names of one field definition, for a populated field.\<close>

definition apply_rule ::
  "(string \<Rightarrow> pyfloat option) \<Rightarrow> FieldDef \<Rightarrow> TemplateField \<Rightarrow> string \<Rightarrow> pyerror + ValidationIssue list" where
  "apply_rule sf field_def field rule_name =
     (case validation_rules sf rule_name of
        None \<Rightarrow> Inr []
      | Some validator \<Rightarrow>
          try_then (validator (value' field))
            (\<lambda>ok. Inr (if \<not> ok then
                 [\<lparr>severity = ''error'',
                   ValidationIssue.field_id = Some (FieldDef.field_id field_def),
                   message = Failed_validation (FieldDef.field_name field_def) rule_name,
                   rule = rule_name\<rparr>]
               else [])))"

definition apply_rules ::
  "(string \<Rightarrow> pyfloat option) \<Rightarrow> FieldDef \<Rightarrow> TemplateField \<Rightarrow> pyerror + ValidationIssue list" where
  "apply_rules sf field_def field =
     collect (apply_rule sf field_def field) (dict_get (FieldDef.validation_rules field_def) [])"

text \<open>
  The body of the loop over the field definitions: the two \<^verbatim>\<open>continue\<close> statements are the
  first two branches. A field is a pydantic model, which is always true as a condition, so
  \<^verbatim>\<open>not field\<close> holds exactly when the dictionary has no entry for the id.
\<close>

definition validate_field_def ::
  "(string \<Rightarrow> pyfloat option) \<Rightarrow> (string \<rightharpoonup> TemplateField) \<Rightarrow> FieldDef \<Rightarrow> pyerror + ValidationIssue list" where
  "validate_field_def sf fmap field_def =
     (let fid = FieldDef.field_id field_def;
          field = fmap fid;
          unpopulated = (case field of None \<Rightarrow> True | Some f \<Rightarrow> value' f = PNone)
      in
        if dict_get (required field_def) False \<and> unpopulated then
          Inr [\<lparr>severity = ''error'',
                ValidationIssue.field_id = Some fid,
                message = Required_missing (FieldDef.field_name field_def),
                rule = ''required_field''\<rparr>]
        else
          (case field of
             None \<Rightarrow> Inr []
           | Some f \<Rightarrow>
               if value' f = PNone then Inr []
               else
                 try_then (apply_rules sf field_def f)
                   (\<lambda>rule_issues.
                      Inr (rule_issues @
                        (if confidence_score f < 1 / 2 then
                           [\<lparr>severity = ''warning'',
                             ValidationIssue.field_id = Some fid,
                             message = Low_confidence (confidence_score f) (FieldDef.field_name field_def),
                             rule = ''confidence_threshold''\<rparr>]
                         else [])))))"

text \<open>The two nested loops of \<^verbatim>\<open>validate_fields\<close>, before the cross-field call.\<close>

definition per_field_issues ::
  "(string \<Rightarrow> pyfloat option) \<Rightarrow> TemplateField list \<Rightarrow> TemplateSchema \<Rightarrow> pyerror + ValidationIssue list" where
  "per_field_issues sf flds template_schema =
     (let fmap = field_map flds in
        collect (\<lambda>section. collect (validate_field_def sf fmap) (dict_get (fields' section) []))
          (dict_get (sections template_schema) []))"

section \<open>Cross-field validation\<close>

text \<open>\<^verbatim>\<open>abs(calculated - reported) > 1\<close>, the comparison of every formula check.\<close>

definition exceeds_tolerance :: "pyval \<Rightarrow> pyval \<Rightarrow> pyerror + bool" where
  "exceeds_tolerance calculated reported =
     try_then (py_sub calculated reported) (\<lambda>d. try_then (py_abs d) (\<lambda>a. py_gt_int a 1))"

text \<open>
  The message of a formula check, \<^verbatim>\<open>f"... ({reported}) ... ({calculated:.2f})"\<close>: the
  reported value is formatted first, then the calculated one. An exception of the formatting
  leaves the validator.
\<close>

definition mismatch_message ::
  "(pyval \<Rightarrow> pyval \<Rightarrow> message) \<Rightarrow> pyval \<Rightarrow> pyval \<Rightarrow> pyerror + message" where
  "mismatch_message kind reported calculated =
     try_then (py_str reported) (\<lambda>r. try_then (py_format_2f calculated) (\<lambda>c. Inr (kind r c)))"

text \<open>V2: total CET1 calculation.\<close>

definition calculated_cet1 :: "(string \<rightharpoonup> pyval) \<Rightarrow> pyerror + pyval" where
  "calculated_cet1 fm =
     (let cet1_components =
            [dict_get (fm ''CR1_010_010'') (PInt 0),
             dict_get (fm ''CR1_020_010'') (PInt 0),
             dict_get (fm ''CR1_030_010'') (PInt 0),
             dict_get (fm ''CR1_040_010'') (PInt 0),
             dict_get (fm ''CR1_050_010'') (PInt 0)];
          adjustments = dict_get (fm ''CR1_100_010'') (PInt 0)
      in try_then (py_sum cet1_components) (\<lambda>total. py_add total adjustments))"

definition cr1_cet1_check :: "(string \<rightharpoonup> pyval) \<Rightarrow> pyerror + ValidationIssue list" where
  "cr1_cet1_check fm =
     try_then (calculated_cet1 fm)
       (\<lambda>calculated.
          let reported_cet1 = dict_get (fm ''CR1_500_010'') PNone in
            if reported_cet1 \<noteq> PNone then
              try_then (exceeds_tolerance calculated reported_cet1)
                (\<lambda>differs.
                   if differs then
                     try_then (mismatch_message CET1_mismatch reported_cet1 calculated)
                       (\<lambda>msg.
                          Inr [\<lparr>severity = ''error'',
                                ValidationIssue.field_id = Some ''CR1_500_010'',
                                message = msg,
                                rule = ''cr1_cet1_calculation''\<rparr>])
                   else Inr [])
            else Inr [])"

text \<open>V3: total Tier 1 calculation.\<close>

definition calculated_tier1 :: "(string \<rightharpoonup> pyval) \<Rightarrow> pyerror + pyval" where
  "calculated_tier1 fm =
     (let cet1 = dict_get (fm ''CR1_500_010'') (PInt 0);
          at1 = dict_get (fm ''CR1_150_010'') (PInt 0)
      in py_add cet1 at1)"

definition cr1_tier1_check :: "(string \<rightharpoonup> pyval) \<Rightarrow> pyerror + ValidationIssue list" where
  "cr1_tier1_check fm =
     try_then (calculated_tier1 fm)
       (\<lambda>calculated.
          let reported_tier1 = dict_get (fm ''CR1_600_010'') PNone in
            if reported_tier1 \<noteq> PNone then
              try_then (exceeds_tolerance calculated reported_tier1)
                (\<lambda>differs.
                   if differs then
                     try_then (mismatch_message Tier1_mismatch reported_tier1 calculated)
                       (\<lambda>msg.
                          Inr [\<lparr>severity = ''error'',
                                ValidationIssue.field_id = Some ''CR1_600_010'',
                                message = msg,
                                rule = ''cr1_tier1_calculation''\<rparr>])
                   else Inr [])
            else Inr [])"

text \<open>V4: total own funds calculation.\<close>

definition calculated_own_funds :: "(string \<rightharpoonup> pyval) \<Rightarrow> pyerror + pyval" where
  "calculated_own_funds fm =
     (let tier1 = dict_get (fm ''CR1_600_010'') (PInt 0);
          tier2 = dict_get (fm ''CR1_200_010'') (PInt 0)
      in py_add tier1 tier2)"

definition cr1_own_funds_check :: "(string \<rightharpoonup> pyval) \<Rightarrow> pyerror + ValidationIssue list" where
  "cr1_own_funds_check fm =
     try_then (calculated_own_funds fm)
       (\<lambda>calculated.
          let reported_own_funds = dict_get (fm ''CR1_700_010'') PNone in
            if reported_own_funds \<noteq> PNone then
              try_then (exceeds_tolerance calculated reported_own_funds)
                (\<lambda>differs.
                   if differs then
                     try_then (mismatch_message Own_funds_mismatch reported_own_funds calculated)
                       (\<lambda>msg.
                          Inr [\<lparr>severity = ''error'',
                                ValidationIssue.field_id = Some ''CR1_700_010'',
                                message = msg,
                                rule = ''cr1_own_funds_calculation''\<rparr>])
                   else Inr [])
            else Inr [])"

text \<open>V6: CET1 capital cannot be negative.\<close>

definition cr1_minimum_cet1_check :: "(string \<rightharpoonup> pyval) \<Rightarrow> pyerror + ValidationIssue list" where
  "cr1_minimum_cet1_check fm =
     (let cet1_amount = dict_get (fm ''CR1_500_010'') PNone in
        if cet1_amount \<noteq> PNone then
          try_then (py_lt_int cet1_amount 0)
            (\<lambda>negative. Inr (if negative then
                 [\<lparr>severity = ''error'',
                   ValidationIssue.field_id = Some ''CR1_500_010'',
                   message = CET1_negative,
                   rule = ''cr1_minimum_cet1''\<rparr>]
               else []))
        else Inr [])"

text \<open>The four checks of \<^verbatim>\<open>_validate_cr1_rules\<close> run one after the other on the same dictionary.\<close>

definition validate_cr1_rules :: "(string \<rightharpoonup> pyval) \<Rightarrow> pyerror + ValidationIssue list" where
  "validate_cr1_rules fm =
     try_then (cr1_cet1_check fm) (\<lambda>v2.
     try_then (cr1_tier1_check fm) (\<lambda>v3.
     try_then (cr1_own_funds_check fm) (\<lambda>v4.
     try_then (cr1_minimum_cet1_check fm) (\<lambda>v6.
       Inr (v2 @ v3 @ v4 @ v6)))))"

text \<open>
  \<^verbatim>\<open>_validate_cr2_rules\<close>. The sum \<^verbatim>\<open>credit_std + credit_irb + (market + operational) * 12.5\<close>
  is evaluated from the left, the product before the second addition.
\<close>

definition calculated_rwa :: "(string \<rightharpoonup> pyval) \<Rightarrow> pyerror + pyval" where
  "calculated_rwa fm =
     (let credit_std = dict_get (fm ''CR2_010_010'') (PInt 0);
          credit_irb = dict_get (fm ''CR2_020_010'') (PInt 0);
          market = dict_get (fm ''CR2_050_010'') (PInt 0);
          operational = dict_get (fm ''CR2_060_010'') (PInt 0)
      in
        try_then (py_add credit_std credit_irb) (\<lambda>credit.
        try_then (py_add market operational) (\<lambda>other.
        try_then (py_mul other (PFloat (Finite (25 / 2)))) (\<lambda>scaled.
          py_add credit scaled))))"

definition cr2_rwa_check :: "(string \<rightharpoonup> pyval) \<Rightarrow> pyerror + ValidationIssue list" where
  "cr2_rwa_check fm =
     try_then (calculated_rwa fm)
       (\<lambda>calculated.
          let reported_rwa = dict_get (fm ''CR2_100_010'') PNone in
            if reported_rwa \<noteq> PNone then
              try_then (exceeds_tolerance calculated reported_rwa)
                (\<lambda>differs.
                   if differs then
                     try_then (mismatch_message RWA_mismatch reported_rwa calculated)
                       (\<lambda>msg.
                          Inr [\<lparr>severity = ''error'',
                                ValidationIssue.field_id = Some ''CR2_100_010'',
                                message = msg,
                                rule = ''cr2_rwa_calculation''\<rparr>])
                   else Inr [])
            else Inr [])"

definition cr2_credit_risk_check :: "(string \<rightharpoonup> pyval) \<Rightarrow> ValidationIssue list" where
  "cr2_credit_risk_check fm =
     (let credit_std = dict_get (fm ''CR2_010_010'') (PInt 0);
          credit_irb = dict_get (fm ''CR2_020_010'') (PInt 0)
      in
        if py_eq_int credit_std 0 \<and> py_eq_int credit_irb 0 then
          [\<lparr>severity = ''warning'',
            ValidationIssue.field_id = Some ''CR2_010_010'',
            message = No_credit_risk,
            rule = ''cr2_credit_risk_required''\<rparr>]
        else [])"

definition validate_cr2_rules :: "(string \<rightharpoonup> pyval) \<Rightarrow> pyerror + ValidationIssue list" where
  "validate_cr2_rules fm =
     try_then (cr2_rwa_check fm) (\<lambda>rwa. Inr (rwa @ cr2_credit_risk_check fm))"

text \<open>\<^verbatim>\<open>{f.field_id: f.value for f in fields if f.value is not None}\<close>.\<close>

definition value_map :: "TemplateField list \<Rightarrow> (string \<rightharpoonup> pyval)" where
  "value_map flds =
     foldl (\<lambda>m f. m(TemplateField.field_id f \<mapsto> value' f)) Map.empty
       (filter (\<lambda>f. value' f \<noteq> PNone) flds)"

definition validate_cross_field_rules ::
  "TemplateField list \<Rightarrow> TemplateType \<Rightarrow> TemplateSchema \<Rightarrow> pyerror + ValidationIssue list" where
  "validate_cross_field_rules flds template_type template_schema =
     (let fm = value_map flds in
        if template_type = OWN_FUNDS_CR1 then validate_cr1_rules fm
        else if template_type = CAPITAL_REQUIREMENTS_CR2 then validate_cr2_rules fm
        else Inr [])"

section \<open>The validator and its summary\<close>

definition validate_fields ::
  "(string \<Rightarrow> pyfloat option) \<Rightarrow> TemplateField list \<Rightarrow> TemplateType \<Rightarrow> TemplateSchema
     \<Rightarrow> pyerror + ValidationIssue list" where
  "validate_fields sf flds template_type template_schema =
     try_then (per_field_issues sf flds template_schema) (\<lambda>issues.
     try_then (validate_cross_field_rules flds template_type template_schema) (\<lambda>cross_validation_issues.
       Inr (issues @ cross_validation_issues)))"

text \<open>\<^verbatim>\<open>sum(1 for i in issues if i.severity == s)\<close>.\<close>

definition count_severity :: "string \<Rightarrow> ValidationIssue list \<Rightarrow> nat" where
  "count_severity s issues = sum_list (map (\<lambda>i. 1) (filter (\<lambda>i. severity i = s) issues))"

definition generate_validation_summary :: "ValidationIssue list \<Rightarrow> ValidationSummary" where
  "generate_validation_summary issues =
     (let error_count = count_severity ''error'' issues;
          warning_count = count_severity ''warning'' issues;
          info_count = count_severity ''info'' issues
      in \<lparr>total_issues = length issues,
          errors = error_count,
          warnings = warning_count,
          info = info_count,
          is_valid = (error_count = 0)\<rparr>)"

section \<open>The documented formulas of the cross-field checks\<close>

text \<open>
  The definitions of this section are not taken from the code: they write down what the
  specification says a cross-field check computes, and occur only in the statements about
  the checks. \<open>spec_input\<close> is the integer read for an input field, 0 when the field is not
  supplied; the totals are the formulas of the three CR1 checks over the integers, and the
  lists name the input fields of each; \<open>spec_integer_inputs\<close> says that each of the listed
  fields is absent or holds an integer; \<open>spec_reported_field\<close> names the reported field that
  a rule compares against.
\<close>

definition spec_input :: "(string \<rightharpoonup> pyval) \<Rightarrow> string \<Rightarrow> int" where
  "spec_input fm k = (case fm k of Some (PInt n) \<Rightarrow> n | _ \<Rightarrow> 0)"

definition spec_integer_inputs :: "(string \<rightharpoonup> pyval) \<Rightarrow> string list \<Rightarrow> bool" where
  "spec_integer_inputs fm ks =
     list_all (\<lambda>k. case fm k of None \<Rightarrow> True | Some (PInt n) \<Rightarrow> True | Some _ \<Rightarrow> False) ks"

definition spec_cet1_inputs :: "string list" where
  "spec_cet1_inputs =
     [''CR1_010_010'', ''CR1_020_010'', ''CR1_030_010'', ''CR1_040_010'', ''CR1_050_010'',
      ''CR1_100_010'']"

definition spec_tier1_inputs :: "string list" where
  "spec_tier1_inputs = [''CR1_500_010'', ''CR1_150_010'']"

definition spec_own_funds_inputs :: "string list" where
  "spec_own_funds_inputs = [''CR1_600_010'', ''CR1_200_010'']"

definition spec_cet1_total :: "(string \<rightharpoonup> pyval) \<Rightarrow> int" where
  "spec_cet1_total fm =
     spec_input fm ''CR1_010_010'' + spec_input fm ''CR1_020_010'' + spec_input fm ''CR1_030_010'' +
     spec_input fm ''CR1_040_010'' + spec_input fm ''CR1_050_010'' + spec_input fm ''CR1_100_010''"

definition spec_tier1_total :: "(string \<rightharpoonup> pyval) \<Rightarrow> int" where
  "spec_tier1_total fm = spec_input fm ''CR1_500_010'' + spec_input fm ''CR1_150_010''"

definition spec_own_funds_total :: "(string \<rightharpoonup> pyval) \<Rightarrow> int" where
  "spec_own_funds_total fm = spec_input fm ''CR1_600_010'' + spec_input fm ''CR1_200_010''"

definition spec_reported_field :: "string \<Rightarrow> string option" where
  "spec_reported_field rule_id =
     (if rule_id = ''cr1_cet1_calculation'' then Some ''CR1_500_010''
      else if rule_id = ''cr1_tier1_calculation'' then Some ''CR1_600_010''
      else if rule_id = ''cr1_own_funds_calculation'' then Some ''CR1_700_010''
      else if rule_id = ''cr1_minimum_cet1'' then Some ''CR1_500_010''
      else if rule_id = ''cr2_rwa_calculation'' then Some ''CR2_100_010''
      else None)"

section \<open>Example inputs\<close>

text \<open>
  Fields, field definitions of the CR2 schema, findings, the dictionary of scenario C and
  two dictionaries with inputs and reported totals missing, that the examples below use.
\<close>

abbreviation example_field :: "string \<Rightarrow> pyval \<Rightarrow> rat \<Rightarrow> TemplateField" where
  "example_field fid v c \<equiv>
     \<lparr>TemplateField.field_id = fid, TemplateField.field_name = fid, value' = v,
      justification = ''see references'', regulatory_references = [], confidence_score = c\<rparr>"

abbreviation cr2_010_def :: FieldDef where
  "cr2_010_def \<equiv>
     \<lparr>FieldDef.field_id = ''CR2_010_010'',
      FieldDef.field_name = ''Credit risk (Standardised approach) - RWA'',
      data_type = ''number'', required = Some True,
      FieldDef.validation_rules = Some [''must_be_positive''], formula = None\<rparr>"

abbreviation cr2_020_def :: FieldDef where
  "cr2_020_def \<equiv>
     \<lparr>FieldDef.field_id = ''CR2_020_010'',
      FieldDef.field_name = ''Credit risk (IRB approach) - RWA'',
      data_type = ''number'', required = Some False,
      FieldDef.validation_rules = Some [''must_be_positive''], formula = None\<rparr>"

abbreviation cr2_050_def :: FieldDef where
  "cr2_050_def \<equiv>
     \<lparr>FieldDef.field_id = ''CR2_050_010'',
      FieldDef.field_name = ''Market risk - Own funds requirement'',
      data_type = ''number'', required = Some True,
      FieldDef.validation_rules = Some [], formula = None\<rparr>"

abbreviation low_confidence_010 :: ValidationIssue where
  "low_confidence_010 \<equiv>
     \<lparr>severity = ''warning'', ValidationIssue.field_id = Some ''CR2_010_010'',
      message = Low_confidence (3 / 10) ''Credit risk (Standardised approach) - RWA'',
      rule = ''confidence_threshold''\<rparr>"

abbreviation not_positive_010 :: ValidationIssue where
  "not_positive_010 \<equiv>
     \<lparr>severity = ''error'', ValidationIssue.field_id = Some ''CR2_010_010'',
      message = Failed_validation ''Credit risk (Standardised approach) - RWA'' ''must_be_positive'',
      rule = ''must_be_positive''\<rparr>"

abbreviation missing_050 :: ValidationIssue where
  "missing_050 \<equiv>
     \<lparr>severity = ''error'', ValidationIssue.field_id = Some ''CR2_050_010'',
      message = Required_missing ''Market risk - Own funds requirement'',
      rule = ''required_field''\<rparr>"

abbreviation missing_060 :: ValidationIssue where
  "missing_060 \<equiv>
     \<lparr>severity = ''error'', ValidationIssue.field_id = Some ''CR2_060_010'',
      message = Required_missing ''Operational risk - Own funds requirement'',
      rule = ''required_field''\<rparr>"

abbreviation missing_100 :: ValidationIssue where
  "missing_100 \<equiv>
     \<lparr>severity = ''error'', ValidationIssue.field_id = Some ''CR2_100_010'',
      message = Required_missing ''Total risk exposure amount'',
      rule = ''required_field''\<rparr>"

abbreviation no_credit_risk :: ValidationIssue where
  "no_credit_risk \<equiv>
     \<lparr>severity = ''warning'', ValidationIssue.field_id = Some ''CR2_010_010'',
      message = No_credit_risk, rule = ''cr2_credit_risk_required''\<rparr>"


abbreviation partial_cr1 :: "string \<rightharpoonup> pyval" where
  "partial_cr1 \<equiv>
     [''CR1_010_010'' \<mapsto> PInt 100, ''CR1_020_010'' \<mapsto> PInt 50,
      ''CR1_150_010'' \<mapsto> PInt 30, ''CR1_200_010'' \<mapsto> PInt 20]"

abbreviation partial_cr2 :: "string \<rightharpoonup> pyval" where
  "partial_cr2 \<equiv> [''CR2_050_010'' \<mapsto> PInt 10, ''CR2_060_010'' \<mapsto> PInt 20]"

section \<open>Integers as floats\<close>

text \<open>
  An integer of magnitude below \<open>2^53\<close> is a double: converting it rounds nothing away.
\<close>

lemma round_half_even_of_int [simp]: "round_half_even (of_int m) = m"
  by (simp add: round_half_even_def)

lemma round_double_of_int:
  assumes small: "\<bar>n\<bar> < 2 ^ 53"
  shows "round_double (of_int n) = Finite (of_int n)"
proof (cases "n = 0")
  case True
  then show ?thesis by (simp add: round_double_def)
next
  case False
  define a where "a = \<bar>n\<bar>"
  define e where "e = bitlen a - 1"
  define k where "k = nat (52 - e)"
  from False small have a: "0 < a" "a < 2 ^ 53" by (simp_all add: a_def)
  from bitlen_bounds [OF a(1)] have bounds: "2 ^ nat e \<le> a" "a < 2 ^ nat (bitlen a)"
    by (simp_all add: e_def)
  have "0 < bitlen a"
  proof (rule ccontr)
    assume "\<not> 0 < bitlen a"
    then have "nat (bitlen a) = 0" by simp
    with bounds(2) a(1) show False by simp
  qed
  then have e0: "0 \<le> e" by (simp add: e_def)
  from bounds(1) a(2) have "(2::int) ^ nat e < 2 ^ 53" by simp
  then have "nat e < 53"
    by (simp only: power_strict_increasing_iff one_less_numeral_iff semiring_norm)
  with e0 have e52: "e \<le> 52" by simp
  have log: "floor_log2 \<bar>rat_of_int n\<bar> = e"
  proof -
    have "\<bar>rat_of_int n\<bar> = rat_of_int a" by (simp add: a_def)
    moreover from a(1) have "floor_log2 (rat_of_int a) = e"
      by (simp add: floor_log2_def e_def)
    ultimately show ?thesis by simp
  qed
  have q: "quantum e = 1 / 2 ^ k"
    using e52 by (cases "e = 52") (simp_all add: quantum_def k_def)
  have scaled: "rat_of_int n / quantum e = rat_of_int (n * 2 ^ k)"
    by (simp add: q)
  have rescaled:
    "rat_of_int (round_half_even (rat_of_int n / quantum e)) * quantum e = rat_of_int n"
    unfolding scaled round_half_even_of_int by (simp add: q)
  have "\<bar>rat_of_int n\<bar> < 2 ^ 53"
  proof -
    have "rat_of_int \<bar>n\<bar> < rat_of_int (2 ^ 53)" using small by (simp only: of_int_less_iff)
    then show ?thesis by simp
  qed
  also have "(2::rat) ^ 53 < 2 ^ 1024" by simp
  finally have range: "\<not> 2 ^ 1024 \<le> \<bar>rat_of_int n\<bar>" by simp
  from log e0 have clamp: "max (floor_log2 \<bar>rat_of_int n\<bar>) (- 1022) = e" by simp
  from False range show ?thesis
    unfolding round_double_def clamp Let_def rescaled by simp
qed

lemma round_double_numeral [simp]:
  "numeral w < (2::int) ^ 53 \<Longrightarrow> round_double (numeral w) = Finite (numeral w)"
  using round_double_of_int [of "numeral w"] by simp

lemma round_double_neg_numeral [simp]:
  "numeral w < (2::int) ^ 53 \<Longrightarrow> round_double (- numeral w) = Finite (- numeral w)"
  using round_double_of_int [of "- numeral w"] by simp

lemma round_double_0 [simp]: "round_double 0 = Finite 0"
  by (simp add: round_double_def)

lemma round_double_1 [simp]: "round_double 1 = Finite 1"
  using round_double_of_int [of 1] by simp

lemma round_double_neg_1 [simp]: "round_double (- 1) = Finite (- 1)"
  using round_double_of_int [of "- 1"] by simp

section \<open>Basic facts about sequencing, dictionaries and loops\<close>

lemma try_then_Inl [simp]: "try_then (Inl e) f = Inl e"
  by (simp add: try_then_def)

lemma try_then_Inr [simp]: "try_then (Inr x) f = f x"
  by (simp add: try_then_def)

lemma try_then_eq_Inr: "try_then m f = Inr y \<longleftrightarrow> (\<exists>x. m = Inr x \<and> f x = Inr y)"
  by (cases m) simp_all

lemma dict_get_None [simp]: "dict_get None d = d"
  by (simp add: dict_get_def)

lemma dict_get_Some [simp]: "dict_get (Some v) d = v"
  by (simp add: dict_get_def)

lemma collect_append:
  "collect f (xs @ ys) =
     try_then (collect f xs) (\<lambda>a. try_then (collect f ys) (\<lambda>b. Inr (a @ b)))"
  by (induction xs) (auto simp add: try_then_def split: sum.splits)

lemma collect_concat:
  "collect (\<lambda>s. collect f (g s)) ss = collect f (concat (map g ss))"
  by (induction ss) (auto simp add: collect_append try_then_def split: sum.splits)

lemma collect_member:
  "collect f xs = Inr ys \<Longrightarrow> x \<in> set xs \<Longrightarrow> \<exists>out. f x = Inr out \<and> set out \<subseteq> set ys"
proof (induction xs arbitrary: ys)
  case Nil
  then show ?case by simp
next
  case (Cons a xs)
  from Cons.prems(1) obtain found more where
    fa: "f a = Inr found" and rest: "collect f xs = Inr more" and ys: "ys = found @ more"
    by (auto split: sum.splits)
  show ?case
  proof (cases "x = a")
    case True
    with fa ys show ?thesis by auto
  next
    case False
    with Cons.prems(2) have "x \<in> set xs" by simp
    from Cons.IH [OF rest this] ys show ?thesis by auto
  qed
qed

lemma collect_origin:
  "collect f xs = Inr ys \<Longrightarrow> i \<in> set ys \<Longrightarrow> \<exists>x \<in> set xs. \<exists>out. f x = Inr out \<and> i \<in> set out"
proof (induction xs arbitrary: ys)
  case Nil
  then show ?case by simp
next
  case (Cons a xs)
  from Cons.prems(1) obtain found more where
    fa: "f a = Inr found" and rest: "collect f xs = Inr more" and ys: "ys = found @ more"
    by (auto split: sum.splits)
  from Cons.prems(2) ys consider "i \<in> set found" | "i \<in> set more" by auto
  then show ?case
  proof cases
    case 1
    with fa show ?thesis by auto
  next
    case 2
    from Cons.IH [OF rest 2] show ?thesis by auto
  qed
qed

text \<open>When every element tags its findings with its own key and keys are distinct, the
  findings of one key are those of its element.\<close>

lemma collect_filter_key:
  assumes "collect f xs = Inr ys"
    and "x \<in> set xs"
    and "distinct (map key xs)"
    and "\<forall>x' \<in> set xs. \<forall>out. f x' = Inr out \<longrightarrow> (\<forall>i \<in> set out. tag i = key x')"
  shows "\<exists>out. f x = Inr out \<and> filter (\<lambda>i. tag i = key x) ys = out"
  using assms
proof (induction xs arbitrary: ys)
  case Nil
  then show ?case by simp
next
  case (Cons a xs)
  from Cons.prems(1) obtain found more where
    fa: "f a = Inr found" and rest: "collect f xs = Inr more" and ys: "ys = found @ more"
    by (auto split: sum.splits)
  have tags: "\<forall>x' \<in> set xs. \<forall>out. f x' = Inr out \<longrightarrow> (\<forall>i \<in> set out. tag i = key x')"
    using Cons.prems(4) by simp
  have found_tag: "\<forall>i \<in> set found. tag i = key a"
    using Cons.prems(4) fa by simp
  from Cons.prems(3) have dist: "distinct (map key xs)" and fresh: "key a \<notin> key ` set xs"
    by simp_all
  show ?case
  proof (cases "x = a")
    case True
    have "filter (\<lambda>i. tag i = key a) more = []"
    proof (rule ccontr)
      assume "filter (\<lambda>i. tag i = key a) more \<noteq> []"
      then obtain i where i: "i \<in> set more" "tag i = key a"
        by (auto simp add: filter_empty_conv)
      from collect_origin [OF rest i(1)] obtain x' out where
        x': "x' \<in> set xs" "f x' = Inr out" "i \<in> set out" by auto
      with tags have "tag i = key x'" by blast
      with i(2) have "key a = key x'" by simp
      with x'(1) fresh show False by (metis imageI)
    qed
    moreover have "filter (\<lambda>i. tag i = key a) found = found"
      using found_tag by (simp add: filter_id_conv)
    ultimately show ?thesis using True fa ys by simp
  next
    case False
    with Cons.prems(2) have x: "x \<in> set xs" by simp
    from Cons.IH [OF rest x dist tags] obtain out where
      out: "f x = Inr out" "filter (\<lambda>i. tag i = key x) more = out" by blast
    from x fresh have "key x \<noteq> key a" by (metis imageI)
    with found_tag have "filter (\<lambda>i. tag i = key x) found = []"
      by (auto simp add: filter_empty_conv)
    with out ys show ?thesis by simp
  qed
qed

lemma per_field_issues_flat:
  "per_field_issues sf flds schema =
     collect (validate_field_def sf (field_map flds)) (schema_field_defs schema)"
  by (simp add: per_field_issues_def schema_field_defs_def Let_def collect_concat)

lemma count_severity_length:
  "count_severity s issues = length (filter (\<lambda>i. severity i = s) issues)"
  unfolding count_severity_def by (induction issues) simp_all

section \<open>The rule predicates\<close>

text \<open>
  C5. \<^verbatim>\<open>must_be_positive\<close> is false on 0, on -5 and on None and true on 10;
  \<^verbatim>\<open>must_be_negative_or_zero\<close> is true on None and on 0 and false on 5. On a value other than
  None that \<^verbatim>\<open>float\<close> rejects (ValueError for a string that is no number, TypeError for an
  array or an object) both predicates return false.
\<close>

theorem rule_predicates:
  "validate_positive sf (PInt 0) = Inr False \<and>
   validate_positive sf (PInt (- 5)) = Inr False \<and>
   validate_positive sf (PInt 10) = Inr True \<and>
   validate_positive sf PNone = Inr False \<and>
   validate_negative_or_zero sf PNone = Inr True \<and>
   validate_negative_or_zero sf (PInt 0) = Inr True \<and>
   validate_negative_or_zero sf (PInt 5) = Inr False \<and>
   (v \<noteq> PNone \<and> (py_float sf v = Inl ValueError \<or> py_float sf v = Inl TypeError) \<longrightarrow>
      validate_positive sf v = Inr False \<and> validate_negative_or_zero sf v = Inr False)"
  by (auto simp add: validate_positive_def validate_negative_or_zero_def int_to_float_def
      float_overflow_bound_def float_le_def)

theorem rule_predicates_witness:
  "PStr ''n/a'' \<noteq> PNone \<and> py_float Map.empty (PStr ''n/a'') = Inl ValueError \<and>
   validate_positive Map.empty (PStr ''n/a'') = Inr False \<and>
   validate_negative_or_zero Map.empty (PStr ''n/a'') = Inr False \<and>
   PList \<noteq> PNone \<and> py_float Map.empty PList = Inl TypeError \<and>
   validate_positive Map.empty PList = Inr False \<and>
   validate_negative_or_zero Map.empty PList = Inr False"
  using rule_predicates [of Map.empty "PStr ''n/a''"] rule_predicates [of Map.empty PList]
  by simp

section \<open>The summary\<close>

text \<open>
  C4. The summary of a list of findings has the length of the list as total, the number
  of findings of each severity as its three counts, and is valid exactly when no finding
  has severity error; removing every warning and info finding leaves the verdict as it is.
\<close>

theorem summary_counts:
  "total_issues (generate_validation_summary issues) = length issues \<and>
   errors (generate_validation_summary issues) =
     length (filter (\<lambda>i. severity i = ''error'') issues) \<and>
   warnings (generate_validation_summary issues) =
     length (filter (\<lambda>i. severity i = ''warning'') issues) \<and>
   info (generate_validation_summary issues) =
     length (filter (\<lambda>i. severity i = ''info'') issues) \<and>
   (is_valid (generate_validation_summary issues) \<longleftrightarrow>
      errors (generate_validation_summary issues) = 0) \<and>
   (is_valid (generate_validation_summary issues) \<longleftrightarrow>
      (\<forall>i \<in> set issues. severity i \<noteq> ''error'')) \<and>
   is_valid (generate_validation_summary issues) =
     is_valid (generate_validation_summary (filter (\<lambda>i. severity i = ''error'') issues))"
  by (auto simp add: generate_validation_summary_def Let_def count_severity_length
      filter_empty_conv)

theorem summary_counts_witness:
  "is_valid (generate_validation_summary
     [\<lparr>severity = ''warning'', ValidationIssue.field_id = Some ''CR2_010_010'',
       message = No_credit_risk, rule = ''cr2_credit_risk_required''\<rparr>]) \<and>
   warnings (generate_validation_summary
     [\<lparr>severity = ''warning'', ValidationIssue.field_id = Some ''CR2_010_010'',
       message = No_credit_risk, rule = ''cr2_credit_risk_required''\<rparr>]) = 1 \<and>
   \<not> is_valid (generate_validation_summary
     [\<lparr>severity = ''warning'', ValidationIssue.field_id = Some ''CR2_010_010'',
       message = No_credit_risk, rule = ''cr2_credit_risk_required''\<rparr>,
      \<lparr>severity = ''error'', ValidationIssue.field_id = Some ''CR1_500_010'',
       message = CET1_negative, rule = ''cr1_minimum_cet1''\<rparr>])"
  using summary_counts
    [of "[\<lparr>severity = ''warning'', ValidationIssue.field_id = Some ''CR2_010_010'',
           message = No_credit_risk, rule = ''cr2_credit_risk_required''\<rparr>]"]
    summary_counts
    [of "[\<lparr>severity = ''warning'', ValidationIssue.field_id = Some ''CR2_010_010'',
           message = No_credit_risk, rule = ''cr2_credit_risk_required''\<rparr>,
          \<lparr>severity = ''error'', ValidationIssue.field_id = Some ''CR1_500_010'',
           message = CET1_negative, rule = ''cr1_minimum_cet1''\<rparr>]"]
  by simp

section \<open>Unknown template types\<close>

text \<open>
  C8. For a template type other than the two known ones the catalog returns the empty
  schema, which has no sections, and the validator returns the empty list of findings for
  every list of fields: it raises nothing.
\<close>

theorem unknown_template_type:
  "template_type \<noteq> OWN_FUNDS_CR1 \<and> template_type \<noteq> CAPITAL_REQUIREMENTS_CR2 \<longrightarrow>
     get_template_schema template_type = empty_schema \<and>
     sections (get_template_schema template_type) = None \<and>
     get_all_field_ids template_type = [] \<and>
     validate_cross_field_rules flds template_type (get_template_schema template_type) = Inr [] \<and>
     validate_fields sf flds template_type (get_template_schema template_type) = Inr []"
  by (simp add: get_template_schema_def templates_def empty_schema_def get_all_field_ids_def
      schema_field_defs_def validate_fields_def per_field_issues_def
      validate_cross_field_rules_def Let_def)

theorem unknown_template_type_witness:
  "''leverage_ratio'' \<noteq> OWN_FUNDS_CR1 \<and> ''leverage_ratio'' \<noteq> CAPITAL_REQUIREMENTS_CR2 \<and>
   get_template_schema ''leverage_ratio'' = empty_schema \<and>
   validate_fields Map.empty
     [\<lparr>TemplateField.field_id = ''CR1_010_010'', TemplateField.field_name = ''Capital'',
       value' = PStr ''n/a'', justification = ''none'', regulatory_references = [],
       confidence_score = 1 / 10\<rparr>]
     ''leverage_ratio'' (get_template_schema ''leverage_ratio'') = Inr []"
proof -
  have unknown:
    "''leverage_ratio'' \<noteq> OWN_FUNDS_CR1 \<and> ''leverage_ratio'' \<noteq> CAPITAL_REQUIREMENTS_CR2"
    by (simp add: OWN_FUNDS_CR1_def CAPITAL_REQUIREMENTS_CR2_def)
  with unknown_template_type
    [of "''leverage_ratio''"
        "[\<lparr>TemplateField.field_id = ''CR1_010_010'', TemplateField.field_name = ''Capital'',
           value' = PStr ''n/a'', justification = ''none'', regulatory_references = [],
           confidence_score = 1 / 10\<rparr>]"
        Map.empty]
  show ?thesis by blast
qed

section \<open>Findings of one field definition\<close>

lemma validation_rules_known:
  "validation_rules sf r \<noteq> None \<longleftrightarrow>
     r \<in> {''must_be_positive'', ''must_be_negative_or_zero'', ''required_field''}"
  by (simp add: validation_rules_def)

lemma apply_rule_unknown: "validation_rules sf r = None \<Longrightarrow> apply_rule sf fd f r = Inr []"
  by (simp add: apply_rule_def)

lemma apply_rule_issues:
  "apply_rule sf fd f r = Inr out \<Longrightarrow> i \<in> set out \<Longrightarrow>
     severity i = ''error'' \<and> ValidationIssue.field_id i = Some (FieldDef.field_id fd) \<and>
     rule i = r \<and> validation_rules sf r \<noteq> None"
  by (auto simp add: apply_rule_def try_then_eq_Inr split: option.splits if_splits)

lemma apply_rules_issues:
  assumes "apply_rules sf fd f = Inr out" and "i \<in> set out"
  shows "severity i = ''error'' \<and> ValidationIssue.field_id i = Some (FieldDef.field_id fd) \<and>
     validation_rules sf (rule i) \<noteq> None"
proof -
  from collect_origin [OF assms [unfolded apply_rules_def]] obtain r out' where
    "apply_rule sf fd f r = Inr out'" "i \<in> set out'" by blast
  from apply_rule_issues [OF this] show ?thesis by simp
qed

lemma collect_skip:
  "f r = Inr [] \<Longrightarrow> collect f (xs @ r # ys) = collect f (xs @ ys)"
  by (simp add: collect_append try_then_def split: sum.splits)

lemma collect_filter:
  "(\<And>x. \<not> P x \<Longrightarrow> f x = Inr []) \<Longrightarrow> collect f (filter P xs) = collect f xs"
  by (induction xs) (simp_all split: sum.splits)

lemma validate_field_def_unpopulated:
  "(case fmap (FieldDef.field_id fd) of None \<Rightarrow> True | Some f \<Rightarrow> value' f = PNone) \<Longrightarrow>
   validate_field_def sf fmap fd =
     Inr (if dict_get (required fd) False then
            [\<lparr>severity = ''error'',
              ValidationIssue.field_id = Some (FieldDef.field_id fd),
              message = Required_missing (FieldDef.field_name fd),
              rule = ''required_field''\<rparr>]
          else [])"
  by (auto simp add: validate_field_def_def Let_def split: option.splits)

lemma validate_field_def_populated:
  "fmap (FieldDef.field_id fd) = Some f \<Longrightarrow> value' f \<noteq> PNone \<Longrightarrow>
   validate_field_def sf fmap fd =
     try_then (apply_rules sf fd f)
       (\<lambda>rule_issues.
          Inr (rule_issues @
            (if confidence_score f < 1 / 2 then
               [\<lparr>severity = ''warning'',
                 ValidationIssue.field_id = Some (FieldDef.field_id fd),
                 message = Low_confidence (confidence_score f) (FieldDef.field_name fd),
                 rule = ''confidence_threshold''\<rparr>]
             else [])))"
  by (simp add: validate_field_def_def Let_def)

lemma validate_field_def_issues:
  assumes "validate_field_def sf fmap fd = Inr out" and "i \<in> set out"
  shows "ValidationIssue.field_id i = Some (FieldDef.field_id fd) \<and>
     (severity i = ''error'' \<or> severity i = ''warning'')"
proof (cases "case fmap (FieldDef.field_id fd) of None \<Rightarrow> True | Some f \<Rightarrow> value' f = PNone")
  case True
  from validate_field_def_unpopulated [where fmap = fmap and fd = fd and sf = sf, OF True] assms show ?thesis
    by (auto split: if_splits)
next
  case False
  then obtain f where f: "fmap (FieldDef.field_id fd) = Some f" "value' f \<noteq> PNone"
    by (auto split: option.splits)
  from assms(1) obtain rs where rs: "apply_rules sf fd f = Inr rs"
    and out: "out = rs @ (if confidence_score f < 1 / 2 then
               [\<lparr>severity = ''warning'',
                 ValidationIssue.field_id = Some (FieldDef.field_id fd),
                 message = Low_confidence (confidence_score f) (FieldDef.field_name fd),
                 rule = ''confidence_threshold''\<rparr>]
             else [])"
    unfolding validate_field_def_populated [where fmap = fmap and fd = fd, OF f] by (auto simp add: try_then_eq_Inr)
  from assms(2) out consider "i \<in> set rs" | "i \<notin> set rs" "i \<in> set out" by blast
  then show ?thesis
  proof cases
    case 1
    from apply_rules_issues [OF rs 1] show ?thesis by simp
  next
    case 2
    with out show ?thesis by (auto split: if_splits)
  qed
qed

lemma validate_field_def_confidence:
  assumes "validate_field_def sf fmap fd = Inr out" and "i \<in> set out"
    and "rule i = ''confidence_threshold''"
  shows "\<exists>f. fmap (FieldDef.field_id fd) = Some f \<and> value' f \<noteq> PNone \<and>
     confidence_score f < 1 / 2"
proof (cases "case fmap (FieldDef.field_id fd) of None \<Rightarrow> True | Some f \<Rightarrow> value' f = PNone")
  case True
  from validate_field_def_unpopulated [where fmap = fmap and fd = fd and sf = sf, OF True] assms show ?thesis
    by (auto split: if_splits)
next
  case False
  then obtain f where f: "fmap (FieldDef.field_id fd) = Some f" "value' f \<noteq> PNone"
    by (auto split: option.splits)
  from assms(1) obtain rs where rs: "apply_rules sf fd f = Inr rs"
    and out: "out = rs @ (if confidence_score f < 1 / 2 then
               [\<lparr>severity = ''warning'',
                 ValidationIssue.field_id = Some (FieldDef.field_id fd),
                 message = Low_confidence (confidence_score f) (FieldDef.field_name fd),
                 rule = ''confidence_threshold''\<rparr>]
             else [])"
    unfolding validate_field_def_populated [where fmap = fmap and fd = fd, OF f] by (auto simp add: try_then_eq_Inr)
  have "i \<notin> set rs"
  proof
    assume "i \<in> set rs"
    from apply_rules_issues [OF rs this] assms(3) show False
      by (simp add: validation_rules_def)
  qed
  with assms(2) out f show ?thesis by (auto split: if_splits)
qed

section \<open>Findings of the cross-field checks\<close>

lemma dict_get_not_default: "dict_get e d \<noteq> d \<Longrightarrow> \<exists>y. e = Some y"
  by (cases e) simp_all

lemma cr1_cet1_check_issues:
  "cr1_cet1_check fm = Inr out \<Longrightarrow> i \<in> set out \<Longrightarrow>
     severity i = ''error'' \<and> ValidationIssue.field_id i = Some ''CR1_500_010'' \<and>
     rule i = ''cr1_cet1_calculation'' \<and> fm ''CR1_500_010'' \<noteq> None"
  by (auto simp add: cr1_cet1_check_def try_then_eq_Inr Let_def dest: dict_get_not_default split: if_splits)

lemma cr1_tier1_check_issues:
  "cr1_tier1_check fm = Inr out \<Longrightarrow> i \<in> set out \<Longrightarrow>
     severity i = ''error'' \<and> ValidationIssue.field_id i = Some ''CR1_600_010'' \<and>
     rule i = ''cr1_tier1_calculation'' \<and> fm ''CR1_600_010'' \<noteq> None"
  by (auto simp add: cr1_tier1_check_def try_then_eq_Inr Let_def dest: dict_get_not_default split: if_splits)

lemma cr1_own_funds_check_issues:
  "cr1_own_funds_check fm = Inr out \<Longrightarrow> i \<in> set out \<Longrightarrow>
     severity i = ''error'' \<and> ValidationIssue.field_id i = Some ''CR1_700_010'' \<and>
     rule i = ''cr1_own_funds_calculation'' \<and> fm ''CR1_700_010'' \<noteq> None"
  by (auto simp add: cr1_own_funds_check_def try_then_eq_Inr Let_def dest: dict_get_not_default split: if_splits)

lemma cr1_minimum_cet1_check_issues:
  "cr1_minimum_cet1_check fm = Inr out \<Longrightarrow> i \<in> set out \<Longrightarrow>
     severity i = ''error'' \<and> ValidationIssue.field_id i = Some ''CR1_500_010'' \<and>
     rule i = ''cr1_minimum_cet1'' \<and> fm ''CR1_500_010'' \<noteq> None"
  by (auto simp add: cr1_minimum_cet1_check_def try_then_eq_Inr Let_def dest: dict_get_not_default split: if_splits)

lemma cr2_rwa_check_issues:
  "cr2_rwa_check fm = Inr out \<Longrightarrow> i \<in> set out \<Longrightarrow>
     severity i = ''error'' \<and> ValidationIssue.field_id i = Some ''CR2_100_010'' \<and>
     rule i = ''cr2_rwa_calculation'' \<and> fm ''CR2_100_010'' \<noteq> None"
  by (auto simp add: cr2_rwa_check_def try_then_eq_Inr Let_def dest: dict_get_not_default split: if_splits)

lemma cr2_credit_risk_check_issues:
  "i \<in> set (cr2_credit_risk_check fm) \<Longrightarrow>
     severity i = ''warning'' \<and> ValidationIssue.field_id i = Some ''CR2_010_010'' \<and>
     rule i = ''cr2_credit_risk_required''"
  by (auto simp add: cr2_credit_risk_check_def Let_def split: if_splits)

lemma validate_cr1_rules_split:
  "validate_cr1_rules fm = Inr out \<longleftrightarrow>
     (\<exists>v2 v3 v4 v6. cr1_cet1_check fm = Inr v2 \<and> cr1_tier1_check fm = Inr v3 \<and>
        cr1_own_funds_check fm = Inr v4 \<and> cr1_minimum_cet1_check fm = Inr v6 \<and>
        out = v2 @ v3 @ v4 @ v6)"
  by (auto simp add: validate_cr1_rules_def try_then_eq_Inr)

lemma validate_cr2_rules_split:
  "validate_cr2_rules fm = Inr out \<longleftrightarrow>
     (\<exists>rwa. cr2_rwa_check fm = Inr rwa \<and> out = rwa @ cr2_credit_risk_check fm)"
  by (auto simp add: validate_cr2_rules_def try_then_eq_Inr)

lemma validate_cr1_rules_issues:
  assumes "validate_cr1_rules fm = Inr out" and "i \<in> set out"
  shows "severity i = ''error'' \<and> ValidationIssue.field_id i \<noteq> None \<and>
     rule i \<in> {''cr1_cet1_calculation'', ''cr1_tier1_calculation'',
       ''cr1_own_funds_calculation'', ''cr1_minimum_cet1''}"
proof -
  from assms(1) obtain v2 v3 v4 v6 where
    c: "cr1_cet1_check fm = Inr v2" "cr1_tier1_check fm = Inr v3"
       "cr1_own_funds_check fm = Inr v4" "cr1_minimum_cet1_check fm = Inr v6"
    and out: "out = v2 @ v3 @ v4 @ v6"
    unfolding validate_cr1_rules_split by blast
  from assms(2) out consider "i \<in> set v2" | "i \<in> set v3" | "i \<in> set v4" | "i \<in> set v6"
    by auto
  then show ?thesis
  proof cases
    case 1 from cr1_cet1_check_issues [OF c(1) 1] show ?thesis by simp
  next
    case 2 from cr1_tier1_check_issues [OF c(2) 2] show ?thesis by simp
  next
    case 3 from cr1_own_funds_check_issues [OF c(3) 3] show ?thesis by simp
  next
    case 4 from cr1_minimum_cet1_check_issues [OF c(4) 4] show ?thesis by simp
  qed
qed

lemma validate_cr2_rules_issues:
  assumes "validate_cr2_rules fm = Inr out" and "i \<in> set out"
  shows "(severity i = ''error'' \<or> severity i = ''warning'') \<and>
     ValidationIssue.field_id i \<noteq> None \<and>
     rule i \<in> {''cr2_rwa_calculation'', ''cr2_credit_risk_required''}"
proof -
  from assms(1) obtain rwa where
    c: "cr2_rwa_check fm = Inr rwa" and out: "out = rwa @ cr2_credit_risk_check fm"
    unfolding validate_cr2_rules_split by blast
  from assms(2) out consider "i \<in> set rwa" | "i \<in> set (cr2_credit_risk_check fm)"
    by auto
  then show ?thesis
  proof cases
    case 1 from cr2_rwa_check_issues [OF c 1] show ?thesis by simp
  next
    case 2 from cr2_credit_risk_check_issues [OF 2] show ?thesis by simp
  qed
qed

lemma validate_cross_field_rules_issues:
  assumes "validate_cross_field_rules flds template_type schema = Inr out" and "i \<in> set out"
  shows "(severity i = ''error'' \<or> severity i = ''warning'') \<and>
     ValidationIssue.field_id i \<noteq> None \<and>
     rule i \<in> {''cr1_cet1_calculation'', ''cr1_tier1_calculation'',
       ''cr1_own_funds_calculation'', ''cr1_minimum_cet1'',
       ''cr2_rwa_calculation'', ''cr2_credit_risk_required''}"
proof (cases "template_type = OWN_FUNDS_CR1")
  case True
  with assms(1) have "validate_cr1_rules (value_map flds) = Inr out"
    by (simp add: validate_cross_field_rules_def Let_def)
  from validate_cr1_rules_issues [OF this assms(2)] show ?thesis by blast
next
  case not_cr1: False
  show ?thesis
  proof (cases "template_type = CAPITAL_REQUIREMENTS_CR2")
    case True
    with not_cr1 assms(1) have "validate_cr2_rules (value_map flds) = Inr out"
      by (simp add: validate_cross_field_rules_def Let_def)
    from validate_cr2_rules_issues [OF this assms(2)] show ?thesis by blast
  next
    case False
    with not_cr1 assms(1) have "out = []"
      by (simp add: validate_cross_field_rules_def Let_def)
    with assms(2) show ?thesis by simp
  qed
qed

lemma validate_fields_split:
  "validate_fields sf flds template_type schema = Inr issues \<longleftrightarrow>
     (\<exists>pf cross. per_field_issues sf flds schema = Inr pf \<and>
        validate_cross_field_rules flds template_type schema = Inr cross \<and>
        issues = pf @ cross)"
  by (auto simp add: validate_fields_def try_then_eq_Inr)

lemma per_field_issues_origin:
  assumes "per_field_issues sf flds schema = Inr pf" and "i \<in> set pf"
  shows "\<exists>fd \<in> set (schema_field_defs schema). \<exists>out.
     validate_field_def sf (field_map flds) fd = Inr out \<and> i \<in> set out"
  using collect_origin [OF assms(1) [unfolded per_field_issues_flat] assms(2)] .

lemma per_field_issues_member:
  assumes "per_field_issues sf flds schema = Inr pf" and "fd \<in> set (schema_field_defs schema)"
  shows "\<exists>out. validate_field_def sf (field_map flds) fd = Inr out \<and> set out \<subseteq> set pf"
  using collect_member [OF assms(1) [unfolded per_field_issues_flat] assms(2)] .

text \<open>
  C10. Every finding the validator returns, from the per-field loop or from a cross-field
  check, has severity error or warning and names a field; so the info count of the summary
  of any validator output is 0.
\<close>

theorem validator_findings_shape:
  "validate_fields sf flds template_type schema = Inr issues \<longrightarrow>
     (\<forall>i \<in> set issues.
        (severity i = ''error'' \<or> severity i = ''warning'') \<and>
        ValidationIssue.field_id i \<noteq> None) \<and>
     info (generate_validation_summary issues) = 0"
proof
  assume ret: "validate_fields sf flds template_type schema = Inr issues"
  then obtain pf cross where
    pf: "per_field_issues sf flds schema = Inr pf"
    and cross: "validate_cross_field_rules flds template_type schema = Inr cross"
    and issues: "issues = pf @ cross"
    unfolding validate_fields_split by blast
  have shape: "(severity i = ''error'' \<or> severity i = ''warning'') \<and>
      ValidationIssue.field_id i \<noteq> None" if "i \<in> set issues" for i
  proof -
    from that issues consider "i \<in> set pf" | "i \<in> set cross" by auto
    then show ?thesis
    proof cases
      case 1
      from per_field_issues_origin [OF pf 1] obtain fd out where
        "validate_field_def sf (field_map flds) fd = Inr out" "i \<in> set out" by blast
      from validate_field_def_issues [OF this] show ?thesis by simp
    next
      case 2
      from validate_cross_field_rules_issues [OF cross 2] show ?thesis by simp
    qed
  qed
  have "severity i \<noteq> ''info''" if "i \<in> set issues" for i
    using shape [OF that] by auto
  then have "filter (\<lambda>i. severity i = ''info'') issues = []"
    by (simp add: filter_empty_conv)
  then have no_info: "info (generate_validation_summary issues) = 0"
    by (simp add: generate_validation_summary_def Let_def count_severity_length)
  show "(\<forall>i \<in> set issues.
        (severity i = ''error'' \<or> severity i = ''warning'') \<and>
        ValidationIssue.field_id i \<noteq> None) \<and>
     info (generate_validation_summary issues) = 0"
  proof (intro conjI ballI)
    fix i assume "i \<in> set issues"
    from shape [OF this] show "severity i = ''error'' \<or> severity i = ''warning''"
      and "ValidationIssue.field_id i \<noteq> None" by simp_all
  next
    show "info (generate_validation_summary issues) = 0" by (rule no_info)
  qed
qed

section \<open>Evaluation on concrete inputs\<close>

lemmas per_field_eval =
  per_field_issues_def field_map_def validate_field_def_def apply_rules_def apply_rule_def
  validation_rules_def validate_positive_def validate_negative_or_zero_def validate_required_def
  int_to_float_def float_overflow_bound_def float_le_def Let_def

lemmas cross_field_eval =
  validate_cross_field_rules_def value_map_def validate_cr1_rules_def validate_cr2_rules_def
  cr1_cet1_check_def cr1_tier1_check_def cr1_own_funds_check_def cr1_minimum_cet1_check_def
  cr2_rwa_check_def cr2_credit_risk_check_def calculated_cet1_def calculated_tier1_def
  calculated_own_funds_def calculated_rwa_def exceeds_tolerance_def
  py_sum_def py_add_def py_sub_def py_mul_def num_op_def py_gt_int_def py_lt_int_def py_eq_int_def
  int_to_float_def float_overflow_bound_def float_sub_def
  OWN_FUNDS_CR1_def CAPITAL_REQUIREMENTS_CR2_def Let_def

section \<open>Matching fields and unknown rule names\<close>

lemma field_map_foldl_None:
  "foldl (\<lambda>m f. m(TemplateField.field_id f \<mapsto> f)) m0 flds k = None \<longleftrightarrow>
     m0 k = None \<and> k \<notin> TemplateField.field_id ` set flds"
  by (induction flds arbitrary: m0) auto

lemma field_map_None: "field_map flds k = None \<longleftrightarrow> k \<notin> TemplateField.field_id ` set flds"
  by (simp add: field_map_def field_map_foldl_None)

lemma field_map_foldl_Some:
  "foldl (\<lambda>m f. m(TemplateField.field_id f \<mapsto> f)) m0 flds k = Some f \<Longrightarrow>
     m0 k = Some f \<or> (f \<in> set flds \<and> TemplateField.field_id f = k)"
proof (induction flds arbitrary: m0)
  case Nil
  then show ?case by simp
next
  case (Cons a flds)
  from Cons.prems have
    "foldl (\<lambda>m f. m(TemplateField.field_id f \<mapsto> f)) (m0(TemplateField.field_id a \<mapsto> a)) flds k = Some f"
    by (simp only: foldl_Cons)
  from Cons.IH [OF this] consider
    "(m0(TemplateField.field_id a \<mapsto> a)) k = Some f" | "f \<in> set flds" "TemplateField.field_id f = k"
    by blast
  then show ?case
  proof cases
    case 1
    then show ?thesis by (cases "k = TemplateField.field_id a") simp_all
  next
    case 2
    then show ?thesis by simp
  qed
qed

lemma field_map_Some:
  "field_map flds k = Some f \<Longrightarrow> f \<in> set flds \<and> TemplateField.field_id f = k"
  using field_map_foldl_Some [of Map.empty flds k f] by (simp add: field_map_def)

lemma validate_positive_returns:
  assumes "py_float sf v \<noteq> Inl OverflowError"
  shows "\<exists>b. validate_positive sf v = Inr b"
proof (cases "py_float sf v")
  case (Inl e)
  with assms show ?thesis by (cases e) (auto simp add: validate_positive_def)
next
  case (Inr x)
  then show ?thesis by (auto simp add: validate_positive_def)
qed

lemma validate_negative_or_zero_returns:
  assumes "py_float sf v \<noteq> Inl OverflowError"
  shows "\<exists>b. validate_negative_or_zero sf v = Inr b"
proof (cases "py_float sf v")
  case (Inl e)
  with assms show ?thesis by (cases e) (auto simp add: validate_negative_or_zero_def)
next
  case (Inr x)
  then show ?thesis by (auto simp add: validate_negative_or_zero_def)
qed

lemma apply_rule_returns:
  assumes "py_float sf (value' f) \<noteq> Inl OverflowError"
  shows "\<exists>out. apply_rule sf fd f r = Inr out"
proof (cases "validation_rules sf r")
  case None
  then show ?thesis by (simp add: apply_rule_def)
next
  case (Some validator)
  then have "\<exists>b. validator (value' f) = Inr b"
    using validate_positive_returns [OF assms] validate_negative_or_zero_returns [OF assms]
    by (auto simp add: validation_rules_def validate_required_def split: if_splits)
  with Some show ?thesis by (auto simp add: apply_rule_def)
qed

lemma collect_returns:
  "(\<And>x. x \<in> set xs \<Longrightarrow> \<exists>out. f x = Inr out) \<Longrightarrow> \<exists>ys. collect f xs = Inr ys"
proof (induction xs)
  case Nil
  show ?case by simp
next
  case (Cons a xs)
  from Cons.prems [of a] obtain out where "f a = Inr out" by auto
  moreover from Cons.IH Cons.prems obtain ys where "collect f xs = Inr ys" by auto
  ultimately show ?case by simp
qed

lemma apply_rules_returns:
  "py_float sf (value' f) \<noteq> Inl OverflowError \<Longrightarrow> \<exists>out. apply_rules sf fd f = Inr out"
  unfolding apply_rules_def by (rule collect_returns) (rule apply_rule_returns)

lemma apply_rule_rules_update [simp]:
  "apply_rule sf (fd\<lparr>FieldDef.validation_rules := rs\<rparr>) f = apply_rule sf fd f"
  by (rule ext) (simp add: apply_rule_def cong: option.case_cong if_cong)

lemma validate_field_def_rules_cong:
  assumes "\<And>f. collect (apply_rule sf fd f) rs = collect (apply_rule sf fd f) rs'"
  shows "validate_field_def sf fmap (fd\<lparr>FieldDef.validation_rules := Some rs\<rparr>) =
     validate_field_def sf fmap (fd\<lparr>FieldDef.validation_rules := Some rs'\<rparr>)"
  by (simp add: validate_field_def_def apply_rules_def assms Let_def cong: option.case_cong if_cong)

text \<open>
  C9. A rule name is missing from the registry exactly when it is none of its three keys.
  Such a name yields no finding and no exception: a field definition validates the same
  with the name in its rule list and without it, and the same as with all unknown names
  removed, so the known rules of the list are applied as before.
\<close>

theorem unknown_rule_skipped:
  "(validation_rules sf r = None \<longleftrightarrow>
      r \<notin> {''must_be_positive'', ''must_be_negative_or_zero'', ''required_field''}) \<and>
   (validation_rules sf r = None \<longrightarrow>
      apply_rule sf fd f r = Inr [] \<and>
      validate_field_def sf fmap (fd\<lparr>FieldDef.validation_rules := Some (xs @ r # ys)\<rparr>) =
        validate_field_def sf fmap (fd\<lparr>FieldDef.validation_rules := Some (xs @ ys)\<rparr>)) \<and>
   validate_field_def sf fmap
       (fd\<lparr>FieldDef.validation_rules := Some (filter (\<lambda>r. validation_rules sf r \<noteq> None) xs)\<rparr>) =
     validate_field_def sf fmap (fd\<lparr>FieldDef.validation_rules := Some xs\<rparr>)"
proof (intro conjI impI)
  show "validation_rules sf r = None \<longleftrightarrow>
      r \<notin> {''must_be_positive'', ''must_be_negative_or_zero'', ''required_field''}"
    using validation_rules_known [of sf r] by blast
next
  assume "validation_rules sf r = None"
  then show "apply_rule sf fd f r = Inr []" by (rule apply_rule_unknown)
next
  assume "validation_rules sf r = None"
  then have "\<And>f. apply_rule sf fd f r = Inr []" by (rule apply_rule_unknown)
  then show "validate_field_def sf fmap (fd\<lparr>FieldDef.validation_rules := Some (xs @ r # ys)\<rparr>) =
        validate_field_def sf fmap (fd\<lparr>FieldDef.validation_rules := Some (xs @ ys)\<rparr>)"
    by (intro validate_field_def_rules_cong collect_skip)
next
  show "validate_field_def sf fmap
       (fd\<lparr>FieldDef.validation_rules := Some (filter (\<lambda>r. validation_rules sf r \<noteq> None) xs)\<rparr>) =
     validate_field_def sf fmap (fd\<lparr>FieldDef.validation_rules := Some xs\<rparr>)"
    by (intro validate_field_def_rules_cong collect_filter) (simp add: apply_rule_unknown)
qed

section \<open>Required fields and the confidence threshold\<close>

lemma validate_field_def_tags:
  "\<forall>fd \<in> set fds. \<forall>out. validate_field_def sf fmap fd = Inr out \<longrightarrow>
     (\<forall>i \<in> set out. ValidationIssue.field_id i = (Some \<circ> FieldDef.field_id) fd)"
  using validate_field_def_issues by fastforce

text \<open>
  C3. When the supplied fields lack the id of a field definition, or the field matched to
  it has the value None, the body of the per-field loop returns exactly the required_field
  error if the definition is required and nothing otherwise. In a schema whose field ids
  are distinct these are all the findings of the per-field validator for that id: one
  error and no rule finding for a required field, no finding for an optional one.
\<close>

theorem required_field_finding:
  assumes "FieldDef.field_id fd \<notin> TemplateField.field_id ` set flds \<or>
     (\<exists>f. field_map flds (FieldDef.field_id fd) = Some f \<and> value' f = PNone)"
  shows "validate_field_def sf (field_map flds) fd =
       Inr (if dict_get (required fd) False then
              [\<lparr>severity = ''error'',
                ValidationIssue.field_id = Some (FieldDef.field_id fd),
                message = Required_missing (FieldDef.field_name fd),
                rule = ''required_field''\<rparr>]
            else []) \<and>
     (per_field_issues sf flds schema = Inr issues \<and>
      fd \<in> set (schema_field_defs schema) \<and>
      distinct (map FieldDef.field_id (schema_field_defs schema)) \<longrightarrow>
        filter (\<lambda>i. ValidationIssue.field_id i = Some (FieldDef.field_id fd)) issues =
          (if dict_get (required fd) False then
             [\<lparr>severity = ''error'',
               ValidationIssue.field_id = Some (FieldDef.field_id fd),
               message = Required_missing (FieldDef.field_name fd),
               rule = ''required_field''\<rparr>]
           else []))"
proof -
  let ?expected = "if dict_get (required fd) False then
              [\<lparr>severity = ''error'',
                ValidationIssue.field_id = Some (FieldDef.field_id fd),
                message = Required_missing (FieldDef.field_name fd),
                rule = ''required_field''\<rparr>]
            else []"
  from assms have unpopulated:
    "case field_map flds (FieldDef.field_id fd) of None \<Rightarrow> True | Some f \<Rightarrow> value' f = PNone"
    by (auto simp add: field_map_None [symmetric])
  have body: "validate_field_def sf (field_map flds) fd = Inr ?expected"
    by (rule validate_field_def_unpopulated
        [where fmap = "field_map flds" and fd = fd and sf = sf, OF unpopulated])
  have "filter (\<lambda>i. ValidationIssue.field_id i = Some (FieldDef.field_id fd)) issues = ?expected"
    if ret: "per_field_issues sf flds schema = Inr issues"
      and mem: "fd \<in> set (schema_field_defs schema)"
      and dist: "distinct (map FieldDef.field_id (schema_field_defs schema))"
  proof -
    from dist have dist': "distinct (map (Some \<circ> FieldDef.field_id) (schema_field_defs schema))"
      by (simp add: distinct_map comp_inj_on_iff [symmetric] inj_on_def)
    from collect_filter_key
      [where f = "validate_field_def sf (field_map flds)" and tag = ValidationIssue.field_id
         and key = "Some \<circ> FieldDef.field_id",
       OF ret [unfolded per_field_issues_flat] mem dist' validate_field_def_tags]
    obtain out where "validate_field_def sf (field_map flds) fd = Inr out"
      and "filter (\<lambda>i. ValidationIssue.field_id i = (Some \<circ> FieldDef.field_id) fd) issues = out"
      by blast
    with body show ?thesis by simp
  qed
  with body show ?thesis by blast
qed

text \<open>The warning of the confidence check, as the code builds it.\<close>

lemma validate_field_def_warning:
  assumes "validate_field_def sf fmap fd = Inr out"
    and "fmap (FieldDef.field_id fd) = Some f" and "value' f \<noteq> PNone"
    and "confidence_score f < 1 / 2"
  shows "\<lparr>severity = ''warning'',
           ValidationIssue.field_id = Some (FieldDef.field_id fd),
           message = Low_confidence (confidence_score f) (FieldDef.field_name fd),
           rule = ''confidence_threshold''\<rparr> \<in> set out"
  using assms(1,4)
  unfolding validate_field_def_populated [where fmap = fmap and fd = fd, OF assms(2,3)]
  by (auto simp add: try_then_eq_Inr)

lemma validate_fields_confidence_origin:
  assumes "validate_fields sf flds template_type schema = Inr issues"
    and "i \<in> set issues" and "rule i = ''confidence_threshold''"
    and "ValidationIssue.field_id i = Some fid"
  shows "\<exists>f. field_map flds fid = Some f \<and> value' f \<noteq> PNone \<and> confidence_score f < 1 / 2"
proof -
  from assms(1) obtain pf cross where
    pf: "per_field_issues sf flds schema = Inr pf"
    and cross: "validate_cross_field_rules flds template_type schema = Inr cross"
    and issues: "issues = pf @ cross"
    unfolding validate_fields_split by blast
  have "i \<notin> set cross"
  proof
    assume "i \<in> set cross"
    from validate_cross_field_rules_issues [OF cross this] assms(3) show False by simp
  qed
  with assms(2) issues have "i \<in> set pf" by simp
  from per_field_issues_origin [OF pf this] obtain fd out where
    out: "validate_field_def sf (field_map flds) fd = Inr out" "i \<in> set out" by blast
  from validate_field_def_issues [OF out] assms(4) have "FieldDef.field_id fd = fid" by simp
  with validate_field_def_confidence [OF out assms(3)] show ?thesis by simp
qed

lemma validate_fields_warning:
  assumes "validate_fields sf flds template_type schema = Inr issues"
    and "fd \<in> set (schema_field_defs schema)"
    and "field_map flds (FieldDef.field_id fd) = Some f" and "value' f \<noteq> PNone"
    and "confidence_score f < 1 / 2"
  shows "\<lparr>severity = ''warning'',
           ValidationIssue.field_id = Some (FieldDef.field_id fd),
           message = Low_confidence (confidence_score f) (FieldDef.field_name fd),
           rule = ''confidence_threshold''\<rparr> \<in> set issues"
proof -
  from assms(1) obtain pf cross where
    pf: "per_field_issues sf flds schema = Inr pf" and issues: "issues = pf @ cross"
    unfolding validate_fields_split by blast
  from per_field_issues_member [OF pf assms(2)] obtain out where
    out: "validate_field_def sf (field_map flds) fd = Inr out" "set out \<subseteq> set pf" by blast
  from validate_field_def_warning [OF out(1) assms(3,4,5)] out(2) issues show ?thesis by auto
qed

text \<open>
  C2, as amended. When the validator returns, every field definition of the schema that is
  matched by a field with a value other than None and a confidence below 0.5 has its
  confidence_threshold warning among the findings, whatever the rule checks gave. A
  matched field whose value is None gets no confidence_threshold finding: the code leaves
  the loop body before the confidence check, with the required_field error if the
  definition is required and with nothing otherwise.
\<close>

theorem low_confidence_warning:
  assumes "validate_fields sf flds template_type schema = Inr issues"
    and "fd \<in> set (schema_field_defs schema)"
    and "field_map flds (FieldDef.field_id fd) = Some f"
  shows "(value' f \<noteq> PNone \<and> confidence_score f < 1 / 2 \<longrightarrow>
       \<lparr>severity = ''warning'',
         ValidationIssue.field_id = Some (FieldDef.field_id fd),
         message = Low_confidence (confidence_score f) (FieldDef.field_name fd),
         rule = ''confidence_threshold''\<rparr> \<in> set issues) \<and>
     (value' f = PNone \<longrightarrow>
       \<not> (\<exists>i \<in> set issues. rule i = ''confidence_threshold'' \<and>
            ValidationIssue.field_id i = Some (FieldDef.field_id fd)))"
proof (intro conjI impI)
  assume "value' f \<noteq> PNone \<and> confidence_score f < 1 / 2"
  with validate_fields_warning [OF assms] show "\<lparr>severity = ''warning'',
         ValidationIssue.field_id = Some (FieldDef.field_id fd),
         message = Low_confidence (confidence_score f) (FieldDef.field_name fd),
         rule = ''confidence_threshold''\<rparr> \<in> set issues" by blast
next
  assume null: "value' f = PNone"
  show "\<not> (\<exists>i \<in> set issues. rule i = ''confidence_threshold'' \<and>
            ValidationIssue.field_id i = Some (FieldDef.field_id fd))"
  proof
    assume "\<exists>i \<in> set issues. rule i = ''confidence_threshold'' \<and>
            ValidationIssue.field_id i = Some (FieldDef.field_id fd)"
    then obtain i where "i \<in> set issues" "rule i = ''confidence_threshold''"
      "ValidationIssue.field_id i = Some (FieldDef.field_id fd)" by blast
    from validate_fields_confidence_origin [OF assms(1) this] assms(3) null show False by simp
  qed
qed

text \<open>
  C6. For a field definition matched by a populated field, the confidence_threshold
  warning is emitted exactly when the confidence is strictly below 0.5: the loop body
  returns (unless a rule predicate raises OverflowError) with the warning iff the score is
  below 0.5, and the findings the validator returns hold a confidence_threshold finding for
  that id iff the score is below 0.5. So 0.5 gives none and 0.49 gives one.
\<close>

theorem confidence_boundary:
  assumes "field_map flds (FieldDef.field_id fd) = Some f" and "value' f \<noteq> PNone"
  shows "(py_float sf (value' f) \<noteq> Inl OverflowError \<longrightarrow>
       (\<exists>out. validate_field_def sf (field_map flds) fd = Inr out \<and>
          ((\<exists>i \<in> set out. rule i = ''confidence_threshold'') \<longleftrightarrow> confidence_score f < 1 / 2))) \<and>
     (validate_fields sf flds template_type schema = Inr issues \<and>
      fd \<in> set (schema_field_defs schema) \<longrightarrow>
        ((\<exists>i \<in> set issues. rule i = ''confidence_threshold'' \<and>
            ValidationIssue.field_id i = Some (FieldDef.field_id fd)) \<longleftrightarrow>
         confidence_score f < 1 / 2))"
proof (intro conjI impI)
  assume "py_float sf (value' f) \<noteq> Inl OverflowError"
  from apply_rules_returns [OF this] obtain rs where rs: "apply_rules sf fd f = Inr rs" by blast
  define out where "out = rs @
     (if confidence_score f < 1 / 2 then
        [\<lparr>severity = ''warning'',
          ValidationIssue.field_id = Some (FieldDef.field_id fd),
          message = Low_confidence (confidence_score f) (FieldDef.field_name fd),
          rule = ''confidence_threshold''\<rparr>]
      else [])"
  have ret: "validate_field_def sf (field_map flds) fd = Inr out"
    unfolding validate_field_def_populated [where fmap = "field_map flds" and fd = fd, OF assms]
    by (simp add: rs out_def)
  have "(\<exists>i \<in> set out. rule i = ''confidence_threshold'') \<longleftrightarrow> confidence_score f < 1 / 2"
  proof
    assume "\<exists>i \<in> set out. rule i = ''confidence_threshold''"
    then obtain i where "i \<in> set out" "rule i = ''confidence_threshold''" by blast
    from validate_field_def_confidence [OF ret this] assms(1) show "confidence_score f < 1 / 2"
      by simp
  next
    assume "confidence_score f < 1 / 2"
    from validate_field_def_warning [OF ret assms this]
    show "\<exists>i \<in> set out. rule i = ''confidence_threshold''" by force
  qed
  with ret show "\<exists>out. validate_field_def sf (field_map flds) fd = Inr out \<and>
          ((\<exists>i \<in> set out. rule i = ''confidence_threshold'') \<longleftrightarrow> confidence_score f < 1 / 2)"
    by blast
next
  assume a: "validate_fields sf flds template_type schema = Inr issues \<and>
      fd \<in> set (schema_field_defs schema)"
  show "(\<exists>i \<in> set issues. rule i = ''confidence_threshold'' \<and>
            ValidationIssue.field_id i = Some (FieldDef.field_id fd)) \<longleftrightarrow>
         confidence_score f < 1 / 2"
  proof
    assume "\<exists>i \<in> set issues. rule i = ''confidence_threshold'' \<and>
            ValidationIssue.field_id i = Some (FieldDef.field_id fd)"
    then obtain i where "i \<in> set issues" "rule i = ''confidence_threshold''"
      "ValidationIssue.field_id i = Some (FieldDef.field_id fd)" by blast
    from validate_fields_confidence_origin [OF conjunct1 [OF a] this] assms(1)
    show "confidence_score f < 1 / 2" by simp
  next
    assume "confidence_score f < 1 / 2"
    from validate_fields_warning [OF conjunct1 [OF a] conjunct2 [OF a] assms this]
    show "\<exists>i \<in> set issues. rule i = ''confidence_threshold'' \<and>
            ValidationIssue.field_id i = Some (FieldDef.field_id fd)" by force
  qed
qed

section \<open>Examples on the CR2 schema\<close>

lemma cr2_field_defs:
  "schema_field_defs get_cr2_schema =
     [cr2_010_def, cr2_020_def, cr2_050_def,
      \<lparr>FieldDef.field_id = ''CR2_060_010'',
        FieldDef.field_name = ''Operational risk - Own funds requirement'',
        data_type = ''number'', required = Some True,
        FieldDef.validation_rules = Some [''must_be_positive''], formula = None\<rparr>,
      \<lparr>FieldDef.field_id = ''CR2_100_010'',
        FieldDef.field_name = ''Total risk exposure amount'',
        data_type = ''number'', required = Some True,
        FieldDef.validation_rules = Some [''must_be_positive''],
        formula = Some ''sum(CR2_010_010, CR2_020_010) + (CR2_050_010 + CR2_060_010) * 12.5''\<rparr>]"
  by (simp add: schema_field_defs_def get_cr2_schema_def)

lemma cr2_field_ids_distinct: "distinct (map FieldDef.field_id (schema_field_defs get_cr2_schema))"
  by (simp add: cr2_field_defs)

lemma cr1_field_ids_distinct: "distinct (map FieldDef.field_id (schema_field_defs get_cr1_schema))"
  by (simp add: schema_field_defs_def get_cr1_schema_def)

lemma only_credit_std_zero:
  "validate_fields Map.empty [example_field ''CR2_010_010'' (PInt 0) (3 / 10)]
     CAPITAL_REQUIREMENTS_CR2 get_cr2_schema =
   Inr [not_positive_010, low_confidence_010, missing_050, missing_060, missing_100,
        no_credit_risk]"
  by (simp add: validate_fields_def per_field_eval cross_field_eval get_cr2_schema_def)

lemma only_credit_std_zero_per_field:
  "per_field_issues Map.empty [example_field ''CR2_010_010'' (PInt 0) (3 / 10)] get_cr2_schema =
   Inr [not_positive_010, low_confidence_010, missing_050, missing_060, missing_100]"
  by (simp add: per_field_eval get_cr2_schema_def)

lemma irb_null:
  "validate_fields Map.empty
     [example_field ''CR2_010_010'' (PInt 1000) (9 / 10),
      example_field ''CR2_020_010'' PNone (3 / 10),
      example_field ''CR2_050_010'' (PInt 10) (9 / 10),
      example_field ''CR2_060_010'' (PInt 20) (9 / 10),
      example_field ''CR2_100_010'' (PInt 1375) (9 / 10)]
     CAPITAL_REQUIREMENTS_CR2 get_cr2_schema = Inr []"
  by (simp add: validate_fields_def per_field_eval cross_field_eval get_cr2_schema_def)

theorem validator_findings_shape_witness:
  "validate_fields Map.empty [example_field ''CR2_010_010'' (PInt 0) (3 / 10)]
     CAPITAL_REQUIREMENTS_CR2 get_cr2_schema =
     Inr [not_positive_010, low_confidence_010, missing_050, missing_060, missing_100,
          no_credit_risk] \<and>
   info (generate_validation_summary
     [not_positive_010, low_confidence_010, missing_050, missing_060, missing_100,
      no_credit_risk]) = 0 \<and>
   ValidationIssue.field_id no_credit_risk \<noteq> None"
  using validator_findings_shape
    [of Map.empty "[example_field ''CR2_010_010'' (PInt 0) (3 / 10)]"
        CAPITAL_REQUIREMENTS_CR2 get_cr2_schema
        "[not_positive_010, low_confidence_010, missing_050, missing_060, missing_100,
          no_credit_risk]"]
    only_credit_std_zero
  by simp

theorem unknown_rule_skipped_witness:
  "validation_rules Map.empty ''must_be_integer'' = None \<and>
   apply_rule Map.empty cr2_010_def (example_field ''CR2_010_010'' (PInt 0) (9 / 10))
     ''must_be_integer'' = Inr [] \<and>
   validate_field_def Map.empty
     (field_map [example_field ''CR2_010_010'' (PInt 0) (9 / 10)])
     (cr2_010_def\<lparr>FieldDef.validation_rules := Some [''must_be_integer'', ''must_be_positive'']\<rparr>) =
   Inr [not_positive_010]"
proof -
  have unknown: "validation_rules Map.empty ''must_be_integer'' = None"
    by (simp add: validation_rules_def)
  have known: "validate_field_def Map.empty
     (field_map [example_field ''CR2_010_010'' (PInt 0) (9 / 10)])
     (cr2_010_def\<lparr>FieldDef.validation_rules := Some ([] @ [''must_be_positive''])\<rparr>) =
     Inr [not_positive_010]"
    by (simp add: per_field_eval)
  from unknown_rule_skipped
    [of Map.empty "''must_be_integer''" cr2_010_def
        "example_field ''CR2_010_010'' (PInt 0) (9 / 10)"
        "field_map [example_field ''CR2_010_010'' (PInt 0) (9 / 10)]"
        "[]" "[''must_be_positive'']"]
    unknown known
  show ?thesis by simp
qed

theorem required_field_finding_witness:
  "''CR2_050_010'' \<notin> TemplateField.field_id ` set [example_field ''CR2_010_010'' (PInt 0) (3 / 10)] \<and>
   validate_field_def Map.empty
     (field_map [example_field ''CR2_010_010'' (PInt 0) (3 / 10)]) cr2_050_def = Inr [missing_050] \<and>
   filter (\<lambda>i. ValidationIssue.field_id i = Some ''CR2_050_010'')
     [not_positive_010, low_confidence_010, missing_050, missing_060, missing_100] = [missing_050] \<and>
   validate_field_def Map.empty
     (field_map [example_field ''CR2_010_010'' (PInt 0) (3 / 10)]) cr2_020_def = Inr [] \<and>
   filter (\<lambda>i. ValidationIssue.field_id i = Some ''CR2_020_010'')
     [not_positive_010, low_confidence_010, missing_050, missing_060, missing_100] = []"
proof -
  have absent_050: "FieldDef.field_id cr2_050_def \<notin>
      TemplateField.field_id ` set [example_field ''CR2_010_010'' (PInt 0) (3 / 10)] \<or>
     (\<exists>f. field_map [example_field ''CR2_010_010'' (PInt 0) (3 / 10)]
        (FieldDef.field_id cr2_050_def) = Some f \<and> value' f = PNone)"
    by simp
  have absent_020: "FieldDef.field_id cr2_020_def \<notin>
      TemplateField.field_id ` set [example_field ''CR2_010_010'' (PInt 0) (3 / 10)] \<or>
     (\<exists>f. field_map [example_field ''CR2_010_010'' (PInt 0) (3 / 10)]
        (FieldDef.field_id cr2_020_def) = Some f \<and> value' f = PNone)"
    by simp
  have mem: "cr2_050_def \<in> set (schema_field_defs get_cr2_schema)"
    "cr2_020_def \<in> set (schema_field_defs get_cr2_schema)"
    by (simp_all add: cr2_field_defs)
  from required_field_finding
      [where sf = Map.empty and schema = get_cr2_schema
         and issues = "[not_positive_010, low_confidence_010, missing_050, missing_060, missing_100]",
       OF absent_050]
    required_field_finding
      [where sf = Map.empty and schema = get_cr2_schema
         and issues = "[not_positive_010, low_confidence_010, missing_050, missing_060, missing_100]",
       OF absent_020]
    only_credit_std_zero_per_field mem cr2_field_ids_distinct
  show ?thesis by simp
qed

lemma credit_std_null:
  "validate_fields Map.empty
     [example_field ''CR2_010_010'' PNone (3 / 10),
      example_field ''CR2_020_010'' (PInt 1000) (9 / 10),
      example_field ''CR2_050_010'' (PInt 10) (9 / 10),
      example_field ''CR2_060_010'' (PInt 20) (9 / 10),
      example_field ''CR2_100_010'' (PInt 1375) (9 / 10)]
     CAPITAL_REQUIREMENTS_CR2 get_cr2_schema =
   Inr [\<lparr>severity = ''error'', ValidationIssue.field_id = Some ''CR2_010_010'',
         message = Required_missing ''Credit risk (Standardised approach) - RWA'',
         rule = ''required_field''\<rparr>]"
  by (simp add: validate_fields_def per_field_eval cross_field_eval get_cr2_schema_def)

text \<open>
  The claim C2 as stated fails where the matched field has the value None. In the first
  input the optional field CR2_020_010 is null with confidence 0.3, and the validator
  returns no finding at all; in the second the required field CR2_010_010 is null with
  confidence 0.3, and the only finding is the required_field error.
\<close>

theorem low_confidence_null_counterexample:
  "field_map
     [example_field ''CR2_010_010'' (PInt 1000) (9 / 10),
      example_field ''CR2_020_010'' PNone (3 / 10),
      example_field ''CR2_050_010'' (PInt 10) (9 / 10),
      example_field ''CR2_060_010'' (PInt 20) (9 / 10),
      example_field ''CR2_100_010'' (PInt 1375) (9 / 10)] ''CR2_020_010'' =
     Some (example_field ''CR2_020_010'' PNone (3 / 10)) \<and>
   cr2_020_def \<in> set (schema_field_defs get_cr2_schema) \<and>
   confidence_score (example_field ''CR2_020_010'' PNone (3 / 10)) < 1 / 2 \<and>
   validate_fields Map.empty
     [example_field ''CR2_010_010'' (PInt 1000) (9 / 10),
      example_field ''CR2_020_010'' PNone (3 / 10),
      example_field ''CR2_050_010'' (PInt 10) (9 / 10),
      example_field ''CR2_060_010'' (PInt 20) (9 / 10),
      example_field ''CR2_100_010'' (PInt 1375) (9 / 10)]
     CAPITAL_REQUIREMENTS_CR2 get_cr2_schema = Inr [] \<and>
   field_map
     [example_field ''CR2_010_010'' PNone (3 / 10),
      example_field ''CR2_020_010'' (PInt 1000) (9 / 10),
      example_field ''CR2_050_010'' (PInt 10) (9 / 10),
      example_field ''CR2_060_010'' (PInt 20) (9 / 10),
      example_field ''CR2_100_010'' (PInt 1375) (9 / 10)] ''CR2_010_010'' =
     Some (example_field ''CR2_010_010'' PNone (3 / 10)) \<and>
   cr2_010_def \<in> set (schema_field_defs get_cr2_schema) \<and>
   validate_fields Map.empty
     [example_field ''CR2_010_010'' PNone (3 / 10),
      example_field ''CR2_020_010'' (PInt 1000) (9 / 10),
      example_field ''CR2_050_010'' (PInt 10) (9 / 10),
      example_field ''CR2_060_010'' (PInt 20) (9 / 10),
      example_field ''CR2_100_010'' (PInt 1375) (9 / 10)]
     CAPITAL_REQUIREMENTS_CR2 get_cr2_schema =
     Inr [\<lparr>severity = ''error'', ValidationIssue.field_id = Some ''CR2_010_010'',
           message = Required_missing ''Credit risk (Standardised approach) - RWA'',
           rule = ''required_field''\<rparr>]"
  by (simp add: irb_null credit_std_null cr2_field_defs field_map_def)

theorem low_confidence_warning_witness:
  "validate_fields Map.empty [example_field ''CR2_010_010'' (PInt 0) (3 / 10)]
     CAPITAL_REQUIREMENTS_CR2 get_cr2_schema =
     Inr [not_positive_010, low_confidence_010, missing_050, missing_060, missing_100,
          no_credit_risk] \<and>
   low_confidence_010 \<in> set
     [not_positive_010, low_confidence_010, missing_050, missing_060, missing_100,
      no_credit_risk] \<and>
   \<not> (\<exists>i \<in> set []. rule i = ''confidence_threshold'' \<and>
        ValidationIssue.field_id i = Some ''CR2_020_010'')"
proof -
  have matched: "field_map [example_field ''CR2_010_010'' (PInt 0) (3 / 10)]
      (FieldDef.field_id cr2_010_def) = Some (example_field ''CR2_010_010'' (PInt 0) (3 / 10))"
    by (simp add: field_map_def)
  have mem: "cr2_010_def \<in> set (schema_field_defs get_cr2_schema)"
    by (simp add: cr2_field_defs)
  have matched_null: "field_map
     [example_field ''CR2_010_010'' (PInt 1000) (9 / 10),
      example_field ''CR2_020_010'' PNone (3 / 10),
      example_field ''CR2_050_010'' (PInt 10) (9 / 10),
      example_field ''CR2_060_010'' (PInt 20) (9 / 10),
      example_field ''CR2_100_010'' (PInt 1375) (9 / 10)] (FieldDef.field_id cr2_020_def) =
     Some (example_field ''CR2_020_010'' PNone (3 / 10))"
    by (simp add: field_map_def)
  have mem_null: "cr2_020_def \<in> set (schema_field_defs get_cr2_schema)"
    by (simp add: cr2_field_defs)
  from low_confidence_warning [OF only_credit_std_zero mem matched]
    low_confidence_warning [OF irb_null mem_null matched_null]
    only_credit_std_zero
  show ?thesis by simp
qed

lemma confidence_half:
  "validate_fields Map.empty
     [example_field ''CR2_010_010'' (PInt 1000) (1 / 2),
      example_field ''CR2_050_010'' (PInt 10) (9 / 10),
      example_field ''CR2_060_010'' (PInt 20) (9 / 10),
      example_field ''CR2_100_010'' (PInt 1375) (9 / 10)]
     CAPITAL_REQUIREMENTS_CR2 get_cr2_schema = Inr []"
  by (simp add: validate_fields_def per_field_eval cross_field_eval get_cr2_schema_def)

lemma confidence_below_half:
  "validate_fields Map.empty
     [example_field ''CR2_010_010'' (PInt 1000) (49 / 100),
      example_field ''CR2_050_010'' (PInt 10) (9 / 10),
      example_field ''CR2_060_010'' (PInt 20) (9 / 10),
      example_field ''CR2_100_010'' (PInt 1375) (9 / 10)]
     CAPITAL_REQUIREMENTS_CR2 get_cr2_schema =
   Inr [\<lparr>severity = ''warning'', ValidationIssue.field_id = Some ''CR2_010_010'',
         message = Low_confidence (49 / 100) ''Credit risk (Standardised approach) - RWA'',
         rule = ''confidence_threshold''\<rparr>]"
  by (simp add: validate_fields_def per_field_eval cross_field_eval get_cr2_schema_def)

theorem confidence_boundary_witness:
  "validate_fields Map.empty
     [example_field ''CR2_010_010'' (PInt 1000) (1 / 2),
      example_field ''CR2_050_010'' (PInt 10) (9 / 10),
      example_field ''CR2_060_010'' (PInt 20) (9 / 10),
      example_field ''CR2_100_010'' (PInt 1375) (9 / 10)]
     CAPITAL_REQUIREMENTS_CR2 get_cr2_schema = Inr [] \<and>
   \<not> (\<exists>i \<in> set []. rule i = ''confidence_threshold'' \<and>
        ValidationIssue.field_id i = Some ''CR2_010_010'') \<and>
   validate_fields Map.empty
     [example_field ''CR2_010_010'' (PInt 1000) (49 / 100),
      example_field ''CR2_050_010'' (PInt 10) (9 / 10),
      example_field ''CR2_060_010'' (PInt 20) (9 / 10),
      example_field ''CR2_100_010'' (PInt 1375) (9 / 10)]
     CAPITAL_REQUIREMENTS_CR2 get_cr2_schema =
     Inr [\<lparr>severity = ''warning'', ValidationIssue.field_id = Some ''CR2_010_010'',
           message = Low_confidence (49 / 100) ''Credit risk (Standardised approach) - RWA'',
           rule = ''confidence_threshold''\<rparr>] \<and>
   (\<exists>i \<in> set [\<lparr>severity = ''warning'', ValidationIssue.field_id = Some ''CR2_010_010'',
           message = Low_confidence (49 / 100) ''Credit risk (Standardised approach) - RWA'',
           rule = ''confidence_threshold''\<rparr>].
      rule i = ''confidence_threshold'' \<and> ValidationIssue.field_id i = Some ''CR2_010_010'') \<and>
   (\<exists>out. validate_field_def Map.empty
       (field_map
          [example_field ''CR2_010_010'' (PInt 1000) (49 / 100),
           example_field ''CR2_050_010'' (PInt 10) (9 / 10),
           example_field ''CR2_060_010'' (PInt 20) (9 / 10),
           example_field ''CR2_100_010'' (PInt 1375) (9 / 10)]) cr2_010_def = Inr out \<and>
      (\<exists>i \<in> set out. rule i = ''confidence_threshold''))"
proof -
  have mem: "cr2_010_def \<in> set (schema_field_defs get_cr2_schema)"
    by (simp add: cr2_field_defs)
  have half: "field_map
     [example_field ''CR2_010_010'' (PInt 1000) (1 / 2),
      example_field ''CR2_050_010'' (PInt 10) (9 / 10),
      example_field ''CR2_060_010'' (PInt 20) (9 / 10),
      example_field ''CR2_100_010'' (PInt 1375) (9 / 10)] (FieldDef.field_id cr2_010_def) =
     Some (example_field ''CR2_010_010'' (PInt 1000) (1 / 2))"
    by (simp add: field_map_def)
  have below: "field_map
     [example_field ''CR2_010_010'' (PInt 1000) (49 / 100),
      example_field ''CR2_050_010'' (PInt 10) (9 / 10),
      example_field ''CR2_060_010'' (PInt 20) (9 / 10),
      example_field ''CR2_100_010'' (PInt 1375) (9 / 10)] (FieldDef.field_id cr2_010_def) =
     Some (example_field ''CR2_010_010'' (PInt 1000) (49 / 100))"
    by (simp add: field_map_def)
  have populated: "value' (example_field ''CR2_010_010'' (PInt 1000) (1 / 2)) \<noteq> PNone"
    "value' (example_field ''CR2_010_010'' (PInt 1000) (49 / 100)) \<noteq> PNone"
    by simp_all
  have in_range: "py_float Map.empty (value' (example_field ''CR2_010_010'' (PInt 1000) (49 / 100)))
      \<noteq> Inl OverflowError"
    by (simp add: int_to_float_def float_overflow_bound_def)
  from confidence_boundary
      [where sf = Map.empty and template_type = CAPITAL_REQUIREMENTS_CR2
         and schema = get_cr2_schema and issues = "[]", OF half populated(1)]
    confidence_boundary
      [where sf = Map.empty and template_type = CAPITAL_REQUIREMENTS_CR2
         and schema = get_cr2_schema
         and issues = "[\<lparr>severity = ''warning'', ValidationIssue.field_id = Some ''CR2_010_010'',
           message = Low_confidence (49 / 100) ''Credit risk (Standardised approach) - RWA'',
           rule = ''confidence_threshold''\<rparr>]", OF below populated(2)]
    confidence_half confidence_below_half mem in_range
  show ?thesis by simp
qed

section \<open>Rounding and the tolerance of the formula checks\<close>














text \<open>On integers the arithmetic of the checks is exact.\<close>

lemma py_add_ints: "py_add (PInt a) (PInt b) = Inr (PInt (a + b))"
  by (simp add: py_add_def num_op_def)


lemma spec_integer_input:
  "spec_integer_inputs fm ks \<Longrightarrow> k \<in> set ks \<Longrightarrow>
     dict_get (fm k) (PInt 0) = PInt (spec_input fm k)"
proof -
  assume "spec_integer_inputs fm ks" and "k \<in> set ks"
  then have "case fm k of None \<Rightarrow> True | Some (PInt n) \<Rightarrow> True | Some _ \<Rightarrow> False"
    by (simp add: spec_integer_inputs_def list_all_iff)
  then show ?thesis
    by (cases "fm k") (auto simp add: spec_input_def split: pyval.splits)
qed

lemma calculated_cet1_ints:
  assumes "spec_integer_inputs fm spec_cet1_inputs"
  shows "calculated_cet1 fm = Inr (PInt (spec_cet1_total fm))"
proof -
  have "dict_get (fm k) (PInt 0) = PInt (spec_input fm k)" if "k \<in> set spec_cet1_inputs" for k
    using assms that by (rule spec_integer_input)
  then have
    "dict_get (fm ''CR1_010_010'') (PInt 0) = PInt (spec_input fm ''CR1_010_010'')"
    "dict_get (fm ''CR1_020_010'') (PInt 0) = PInt (spec_input fm ''CR1_020_010'')"
    "dict_get (fm ''CR1_030_010'') (PInt 0) = PInt (spec_input fm ''CR1_030_010'')"
    "dict_get (fm ''CR1_040_010'') (PInt 0) = PInt (spec_input fm ''CR1_040_010'')"
    "dict_get (fm ''CR1_050_010'') (PInt 0) = PInt (spec_input fm ''CR1_050_010'')"
    "dict_get (fm ''CR1_100_010'') (PInt 0) = PInt (spec_input fm ''CR1_100_010'')"
    by (simp_all add: spec_cet1_inputs_def)
  then show ?thesis
    by (simp add: calculated_cet1_def py_sum_def py_add_ints spec_cet1_total_def)
qed

lemma calculated_tier1_ints:
  assumes "spec_integer_inputs fm spec_tier1_inputs"
  shows "calculated_tier1 fm = Inr (PInt (spec_tier1_total fm))"
proof -
  have "dict_get (fm k) (PInt 0) = PInt (spec_input fm k)" if "k \<in> set spec_tier1_inputs" for k
    using assms that by (rule spec_integer_input)
  then have
    "dict_get (fm ''CR1_500_010'') (PInt 0) = PInt (spec_input fm ''CR1_500_010'')"
    "dict_get (fm ''CR1_150_010'') (PInt 0) = PInt (spec_input fm ''CR1_150_010'')"
    by (simp_all add: spec_tier1_inputs_def)
  then show ?thesis
    by (simp add: calculated_tier1_def py_add_ints spec_tier1_total_def)
qed

lemma calculated_own_funds_ints:
  assumes "spec_integer_inputs fm spec_own_funds_inputs"
  shows "calculated_own_funds fm = Inr (PInt (spec_own_funds_total fm))"
proof -
  have "dict_get (fm k) (PInt 0) = PInt (spec_input fm k)"
    if "k \<in> set spec_own_funds_inputs" for k
    using assms that by (rule spec_integer_input)
  then have
    "dict_get (fm ''CR1_600_010'') (PInt 0) = PInt (spec_input fm ''CR1_600_010'')"
    "dict_get (fm ''CR1_200_010'') (PInt 0) = PInt (spec_input fm ''CR1_200_010'')"
    by (simp_all add: spec_own_funds_inputs_def)
  then show ?thesis
    by (simp add: calculated_own_funds_def py_add_ints spec_own_funds_total_def)
qed





section \<open>The CET1 cross-check\<close>








section \<open>Missing inputs and missing reported fields\<close>

lemma dict_get_default_upd:
  "fm k = None \<Longrightarrow> dict_get ((fm(k \<mapsto> d)) k') d = dict_get (fm k') d"
  by (simp add: dict_get_def)

lemma calculated_cet1_default:
  "fm k = None \<Longrightarrow> calculated_cet1 (fm(k \<mapsto> PInt 0)) = calculated_cet1 fm"
  by (simp add: calculated_cet1_def dict_get_default_upd del: fun_upd_apply)

lemma calculated_tier1_default:
  "fm k = None \<Longrightarrow> calculated_tier1 (fm(k \<mapsto> PInt 0)) = calculated_tier1 fm"
  by (simp add: calculated_tier1_def dict_get_default_upd del: fun_upd_apply)

lemma calculated_own_funds_default:
  "fm k = None \<Longrightarrow> calculated_own_funds (fm(k \<mapsto> PInt 0)) = calculated_own_funds fm"
  by (simp add: calculated_own_funds_def dict_get_default_upd del: fun_upd_apply)

lemma calculated_rwa_default:
  "fm k = None \<Longrightarrow> calculated_rwa (fm(k \<mapsto> PInt 0)) = calculated_rwa fm"
  by (simp add: calculated_rwa_def dict_get_default_upd del: fun_upd_apply)

lemma cr2_credit_risk_check_default:
  "fm k = None \<Longrightarrow> cr2_credit_risk_check (fm(k \<mapsto> PInt 0)) = cr2_credit_risk_check fm"
  by (simp add: cr2_credit_risk_check_def dict_get_default_upd del: fun_upd_apply)

lemma cr1_cet1_check_default:
  "fm k = None \<Longrightarrow> k \<noteq> ''CR1_500_010'' \<Longrightarrow>
     cr1_cet1_check (fm(k \<mapsto> PInt 0)) = cr1_cet1_check fm"
  by (simp add: cr1_cet1_check_def calculated_cet1_default)

lemma cr1_tier1_check_default:
  "fm k = None \<Longrightarrow> k \<noteq> ''CR1_600_010'' \<Longrightarrow>
     cr1_tier1_check (fm(k \<mapsto> PInt 0)) = cr1_tier1_check fm"
  by (simp add: cr1_tier1_check_def calculated_tier1_default)

lemma cr1_own_funds_check_default:
  "fm k = None \<Longrightarrow> k \<noteq> ''CR1_700_010'' \<Longrightarrow>
     cr1_own_funds_check (fm(k \<mapsto> PInt 0)) = cr1_own_funds_check fm"
  by (simp add: cr1_own_funds_check_def calculated_own_funds_default)

lemma validate_cr2_rules_default:
  "fm k = None \<Longrightarrow> k \<noteq> ''CR2_100_010'' \<Longrightarrow>
     validate_cr2_rules (fm(k \<mapsto> PInt 0)) = validate_cr2_rules fm"
  by (simp add: validate_cr2_rules_def cr2_rwa_check_def calculated_rwa_default
      cr2_credit_risk_check_default)

lemma value_map_foldl_None:
  "foldl (\<lambda>m f. m(TemplateField.field_id f \<mapsto> value' f)) m0 fs k = None \<longleftrightarrow>
     m0 k = None \<and> k \<notin> TemplateField.field_id ` set fs"
  by (induction fs arbitrary: m0) auto

lemma value_map_None:
  "value_map flds k = None \<longleftrightarrow>
     (\<forall>f \<in> set flds. TemplateField.field_id f = k \<longrightarrow> value' f = PNone)"
  by (auto simp add: value_map_def value_map_foldl_None)

lemma validate_cross_field_rules_target:
  assumes "validate_cross_field_rules flds template_type schema = Inr out" and "i \<in> set out"
    and "spec_reported_field (rule i) = Some target"
  shows "value_map flds target \<noteq> None"
proof -
  consider (cr1) "validate_cr1_rules (value_map flds) = Inr out"
    | (cr2) "validate_cr2_rules (value_map flds) = Inr out" | (none) "out = []"
  proof (cases "template_type = OWN_FUNDS_CR1")
    case True
    with assms(1) have "validate_cr1_rules (value_map flds) = Inr out"
      by (simp add: validate_cross_field_rules_def Let_def)
    then show ?thesis by (rule cr1)
  next
    case not_cr1: False
    show ?thesis
    proof (cases "template_type = CAPITAL_REQUIREMENTS_CR2")
      case True
      with not_cr1 assms(1) have "validate_cr2_rules (value_map flds) = Inr out"
        by (simp add: validate_cross_field_rules_def Let_def)
      then show ?thesis by (rule cr2)
    next
      case False
      with not_cr1 assms(1) have "out = []"
        by (simp add: validate_cross_field_rules_def Let_def)
      then show ?thesis by (rule none)
    qed
  qed
  then show ?thesis
  proof cases
    case cr1
    then obtain v2 v3 v4 v6 where
      c: "cr1_cet1_check (value_map flds) = Inr v2" "cr1_tier1_check (value_map flds) = Inr v3"
        "cr1_own_funds_check (value_map flds) = Inr v4"
        "cr1_minimum_cet1_check (value_map flds) = Inr v6"
      and out: "out = v2 @ v3 @ v4 @ v6"
      unfolding validate_cr1_rules_split by blast
    from assms(2) out consider "i \<in> set v2" | "i \<in> set v3" | "i \<in> set v4" | "i \<in> set v6"
      by auto
    then show ?thesis
    proof cases
      case 1 from cr1_cet1_check_issues [OF c(1) 1] assms(3) show ?thesis
        by (simp add: spec_reported_field_def)
    next
      case 2 from cr1_tier1_check_issues [OF c(2) 2] assms(3) show ?thesis
        by (simp add: spec_reported_field_def)
    next
      case 3 from cr1_own_funds_check_issues [OF c(3) 3] assms(3) show ?thesis
        by (simp add: spec_reported_field_def)
    next
      case 4 from cr1_minimum_cet1_check_issues [OF c(4) 4] assms(3) show ?thesis
        by (simp add: spec_reported_field_def)
    qed
  next
    case cr2
    then obtain rwa where
      c: "cr2_rwa_check (value_map flds) = Inr rwa"
      and out: "out = rwa @ cr2_credit_risk_check (value_map flds)"
      unfolding validate_cr2_rules_split by blast
    from assms(2) out consider "i \<in> set rwa" | "i \<in> set (cr2_credit_risk_check (value_map flds))"
      by auto
    then show ?thesis
    proof cases
      case 1 from cr2_rwa_check_issues [OF c 1] assms(3) show ?thesis
        by (simp add: spec_reported_field_def)
    next
      case 2 from cr2_credit_risk_check_issues [OF 2] assms(3) show ?thesis
        by (simp add: spec_reported_field_def)
    qed
  next
    case none
    with assms(2) show ?thesis by simp
  qed
qed

lemma cr1_cet1_check_absent:
  "fm ''CR1_500_010'' = None \<Longrightarrow>
     cr1_cet1_check fm = try_then (calculated_cet1 fm) (\<lambda>calculated. Inr [])"
  by (simp add: cr1_cet1_check_def)

lemma cr1_tier1_check_absent:
  "fm ''CR1_600_010'' = None \<Longrightarrow>
     cr1_tier1_check fm = try_then (calculated_tier1 fm) (\<lambda>calculated. Inr [])"
  by (simp add: cr1_tier1_check_def)

lemma cr1_own_funds_check_absent:
  "fm ''CR1_700_010'' = None \<Longrightarrow>
     cr1_own_funds_check fm = try_then (calculated_own_funds fm) (\<lambda>calculated. Inr [])"
  by (simp add: cr1_own_funds_check_def)

lemma cr1_minimum_cet1_check_absent:
  "fm ''CR1_500_010'' = None \<Longrightarrow> cr1_minimum_cet1_check fm = Inr []"
  by (simp add: cr1_minimum_cet1_check_def)

lemma cr2_rwa_check_absent:
  "fm ''CR2_100_010'' = None \<Longrightarrow>
     cr2_rwa_check fm = try_then (calculated_rwa fm) (\<lambda>calculated. Inr [])"
  by (simp add: cr2_rwa_check_def)

lemma validate_cr1_rules_unreported:
  assumes "spec_integer_inputs fm (spec_cet1_inputs @ spec_tier1_inputs @ spec_own_funds_inputs)"
    and "fm ''CR1_500_010'' = None" and "fm ''CR1_600_010'' = None"
    and "fm ''CR1_700_010'' = None"
  shows "validate_cr1_rules fm = Inr []"
proof -
  from assms(1) have ints: "spec_integer_inputs fm spec_cet1_inputs"
    "spec_integer_inputs fm spec_tier1_inputs" "spec_integer_inputs fm spec_own_funds_inputs"
    by (simp_all add: spec_integer_inputs_def)
  from assms(2) calculated_cet1_ints [OF ints(1)] have "cr1_cet1_check fm = Inr []"
    by (simp add: cr1_cet1_check_absent)
  moreover from assms(3) calculated_tier1_ints [OF ints(2)] have "cr1_tier1_check fm = Inr []"
    by (simp add: cr1_tier1_check_absent)
  moreover from assms(4) calculated_own_funds_ints [OF ints(3)]
  have "cr1_own_funds_check fm = Inr []"
    by (simp add: cr1_own_funds_check_absent)
  moreover from assms(2) have "cr1_minimum_cet1_check fm = Inr []"
    by (rule cr1_minimum_cet1_check_absent)
  ultimately show ?thesis by (simp add: validate_cr1_rules_def)
qed

text \<open>
  C7. A field that is not supplied is read as 0 by every cross-field computation: putting
  the integer 0 for it leaves each computed value and the credit-risk check as they are,
  and when each input of a CR1 formula is absent or an integer the computed value is the
  documented sum over the inputs with 0 for the absent ones. When the reported field of a
  check is not supplied the check computes its value and returns no finding; on integer
  inputs with none of the three reported totals supplied the CR1 checks return no finding.
  No finding of a rule is among the findings the cross-field validator returns when every
  supplied field with the id of the rule's reported field is null. A field id is absent
  from the dictionary of the cross-field checks exactly when every supplied field with that
  id is null.
\<close>

theorem cross_check_defaults:
  "(fm k = None \<longrightarrow>
      calculated_cet1 (fm(k \<mapsto> PInt 0)) = calculated_cet1 fm \<and>
      calculated_tier1 (fm(k \<mapsto> PInt 0)) = calculated_tier1 fm \<and>
      calculated_own_funds (fm(k \<mapsto> PInt 0)) = calculated_own_funds fm \<and>
      calculated_rwa (fm(k \<mapsto> PInt 0)) = calculated_rwa fm \<and>
      cr2_credit_risk_check (fm(k \<mapsto> PInt 0)) = cr2_credit_risk_check fm) \<and>
   (spec_integer_inputs fm spec_cet1_inputs \<longrightarrow>
      calculated_cet1 fm = Inr (PInt (spec_cet1_total fm))) \<and>
   (spec_integer_inputs fm spec_tier1_inputs \<longrightarrow>
      calculated_tier1 fm = Inr (PInt (spec_tier1_total fm))) \<and>
   (spec_integer_inputs fm spec_own_funds_inputs \<longrightarrow>
      calculated_own_funds fm = Inr (PInt (spec_own_funds_total fm))) \<and>
   (fm ''CR1_500_010'' = None \<longrightarrow>
      cr1_cet1_check fm = try_then (calculated_cet1 fm) (\<lambda>calculated. Inr []) \<and>
      cr1_minimum_cet1_check fm = Inr []) \<and>
   (fm ''CR1_600_010'' = None \<longrightarrow>
      cr1_tier1_check fm = try_then (calculated_tier1 fm) (\<lambda>calculated. Inr [])) \<and>
   (fm ''CR1_700_010'' = None \<longrightarrow>
      cr1_own_funds_check fm = try_then (calculated_own_funds fm) (\<lambda>calculated. Inr [])) \<and>
   (fm ''CR2_100_010'' = None \<longrightarrow>
      cr2_rwa_check fm = try_then (calculated_rwa fm) (\<lambda>calculated. Inr [])) \<and>
   (spec_integer_inputs fm (spec_cet1_inputs @ spec_tier1_inputs @ spec_own_funds_inputs) \<and>
    fm ''CR1_500_010'' = None \<and> fm ''CR1_600_010'' = None \<and> fm ''CR1_700_010'' = None \<longrightarrow>
      validate_cr1_rules fm = Inr []) \<and>
   (validate_cross_field_rules flds template_type schema = Inr issues \<and>
    spec_reported_field rule_id = Some target \<and>
    (\<forall>f \<in> set flds. TemplateField.field_id f = target \<longrightarrow> value' f = PNone) \<longrightarrow>
      \<not> (\<exists>i \<in> set issues. rule i = rule_id)) \<and>
   (value_map flds k = None \<longleftrightarrow>
      (\<forall>f \<in> set flds. TemplateField.field_id f = k \<longrightarrow> value' f = PNone))"
proof (intro conjI impI)
  assume "fm k = None"
  then show "calculated_cet1 (fm(k \<mapsto> PInt 0)) = calculated_cet1 fm"
    and "calculated_tier1 (fm(k \<mapsto> PInt 0)) = calculated_tier1 fm"
    and "calculated_own_funds (fm(k \<mapsto> PInt 0)) = calculated_own_funds fm"
    and "calculated_rwa (fm(k \<mapsto> PInt 0)) = calculated_rwa fm"
    and "cr2_credit_risk_check (fm(k \<mapsto> PInt 0)) = cr2_credit_risk_check fm"
    by (rule calculated_cet1_default calculated_tier1_default calculated_own_funds_default
        calculated_rwa_default cr2_credit_risk_check_default)+
next
  assume "spec_integer_inputs fm spec_cet1_inputs"
  then show "calculated_cet1 fm = Inr (PInt (spec_cet1_total fm))"
    by (rule calculated_cet1_ints)
next
  assume "spec_integer_inputs fm spec_tier1_inputs"
  then show "calculated_tier1 fm = Inr (PInt (spec_tier1_total fm))"
    by (rule calculated_tier1_ints)
next
  assume "spec_integer_inputs fm spec_own_funds_inputs"
  then show "calculated_own_funds fm = Inr (PInt (spec_own_funds_total fm))"
    by (rule calculated_own_funds_ints)
next
  assume "fm ''CR1_500_010'' = None"
  then show "cr1_cet1_check fm = try_then (calculated_cet1 fm) (\<lambda>calculated. Inr [])"
    and "cr1_minimum_cet1_check fm = Inr []"
    by (rule cr1_cet1_check_absent cr1_minimum_cet1_check_absent)+
next
  assume "fm ''CR1_600_010'' = None"
  then show "cr1_tier1_check fm = try_then (calculated_tier1 fm) (\<lambda>calculated. Inr [])"
    by (rule cr1_tier1_check_absent)
next
  assume "fm ''CR1_700_010'' = None"
  then show "cr1_own_funds_check fm = try_then (calculated_own_funds fm) (\<lambda>calculated. Inr [])"
    by (rule cr1_own_funds_check_absent)
next
  assume "fm ''CR2_100_010'' = None"
  then show "cr2_rwa_check fm = try_then (calculated_rwa fm) (\<lambda>calculated. Inr [])"
    by (rule cr2_rwa_check_absent)
next
  assume "spec_integer_inputs fm (spec_cet1_inputs @ spec_tier1_inputs @ spec_own_funds_inputs) \<and>
    fm ''CR1_500_010'' = None \<and> fm ''CR1_600_010'' = None \<and> fm ''CR1_700_010'' = None"
  then show "validate_cr1_rules fm = Inr []" by (simp add: validate_cr1_rules_unreported)
next
  assume a: "validate_cross_field_rules flds template_type schema = Inr issues \<and>
    spec_reported_field rule_id = Some target \<and>
    (\<forall>f \<in> set flds. TemplateField.field_id f = target \<longrightarrow> value' f = PNone)"
  then have absent: "value_map flds target = None" by (simp add: value_map_None)
  show "\<not> (\<exists>i \<in> set issues. rule i = rule_id)"
  proof
    assume "\<exists>i \<in> set issues. rule i = rule_id"
    then obtain i where i: "i \<in> set issues" "rule i = rule_id" by blast
    with a have "spec_reported_field (rule i) = Some target" by simp
    from validate_cross_field_rules_target [OF conjunct1 [OF a] i(1) this] absent
    show False by simp
  qed
next
  show "value_map flds k = None \<longleftrightarrow>
      (\<forall>f \<in> set flds. TemplateField.field_id f = k \<longrightarrow> value' f = PNone)"
    by (rule value_map_None)
qed

lemma only_credit_std_zero_cross:
  "validate_cross_field_rules [example_field ''CR2_010_010'' (PInt 0) (3 / 10)]
     CAPITAL_REQUIREMENTS_CR2 get_cr2_schema = Inr [no_credit_risk]"
  by (simp add: cross_field_eval)

text \<open>
  A CR1 dictionary without CR1_030_010 and without any reported total, and a CR2 dictionary
  with the two credit-risk inputs and the reported total missing.
\<close>

theorem cross_check_defaults_witness:
  "calculated_cet1 (partial_cr1(''CR1_030_010'' \<mapsto> PInt 0)) = Inr (PInt 150) \<and>
   calculated_cet1 partial_cr1 = Inr (PInt 150) \<and>
   calculated_tier1 partial_cr1 = Inr (PInt 30) \<and>
   calculated_own_funds partial_cr1 = Inr (PInt 20) \<and>
   cr1_cet1_check partial_cr1 = Inr [] \<and>
   cr1_minimum_cet1_check partial_cr1 = Inr [] \<and>
   cr1_tier1_check partial_cr1 = Inr [] \<and>
   cr1_own_funds_check partial_cr1 = Inr [] \<and>
   validate_cr1_rules partial_cr1 = Inr [] \<and>
   calculated_rwa (partial_cr2(''CR2_010_010'' \<mapsto> PInt 0)) = Inr (PFloat (Finite 375)) \<and>
   calculated_rwa partial_cr2 = Inr (PFloat (Finite 375)) \<and>
   cr2_credit_risk_check (partial_cr2(''CR2_010_010'' \<mapsto> PInt 0)) = [no_credit_risk] \<and>
   cr2_credit_risk_check partial_cr2 = [no_credit_risk] \<and>
   cr2_rwa_check partial_cr2 = Inr [] \<and>
   validate_cross_field_rules [example_field ''CR2_010_010'' (PInt 0) (3 / 10)]
     CAPITAL_REQUIREMENTS_CR2 get_cr2_schema = Inr [no_credit_risk] \<and>
   spec_reported_field ''cr2_rwa_calculation'' = Some ''CR2_100_010'' \<and>
   \<not> (\<exists>i \<in> set [no_credit_risk]. rule i = ''cr2_rwa_calculation'') \<and>
   value_map [example_field ''CR2_010_010'' (PInt 0) (3 / 10)] ''CR1_030_010'' = None"
proof -
  have missing: "partial_cr1 ''CR1_030_010'' = None" "partial_cr1 ''CR1_500_010'' = None"
    "partial_cr1 ''CR1_600_010'' = None" "partial_cr1 ''CR1_700_010'' = None"
    "partial_cr1 ''CR2_100_010'' = None"
    "partial_cr2 ''CR2_010_010'' = None" "partial_cr2 ''CR2_100_010'' = None"
    by simp_all
  have ints: "spec_integer_inputs partial_cr1 spec_cet1_inputs"
    "spec_integer_inputs partial_cr1 spec_tier1_inputs"
    "spec_integer_inputs partial_cr1 spec_own_funds_inputs"
    "spec_integer_inputs partial_cr1 (spec_cet1_inputs @ spec_tier1_inputs @ spec_own_funds_inputs)"
    by (simp_all add: spec_integer_inputs_def spec_cet1_inputs_def spec_tier1_inputs_def
        spec_own_funds_inputs_def)
  have totals: "spec_cet1_total partial_cr1 = 150" "spec_tier1_total partial_cr1 = 30"
    "spec_own_funds_total partial_cr1 = 20"
    by (simp_all add: spec_cet1_total_def spec_tier1_total_def spec_own_funds_total_def
        spec_input_def)
  have zero: "calculated_cet1 (partial_cr1(''CR1_030_010'' \<mapsto> PInt 0)) = Inr (PInt 150)"
    "calculated_rwa (partial_cr2(''CR2_010_010'' \<mapsto> PInt 0)) = Inr (PFloat (Finite 375))"
    "cr2_credit_risk_check (partial_cr2(''CR2_010_010'' \<mapsto> PInt 0)) = [no_credit_risk]"
    by (simp_all add: cross_field_eval)
  have target: "spec_reported_field ''cr2_rwa_calculation'' = Some ''CR2_100_010''"
    by (simp add: spec_reported_field_def)
  have not_supplied: "\<forall>f \<in> set [example_field ''CR2_010_010'' (PInt 0) (3 / 10)].
      TemplateField.field_id f = ''CR2_100_010'' \<longrightarrow> value' f = PNone"
    by simp
  note cr1 = cross_check_defaults
      [where fm = partial_cr1 and k = "''CR1_030_010''"
        and flds = "[example_field ''CR2_010_010'' (PInt 0) (3 / 10)]"
        and template_type = CAPITAL_REQUIREMENTS_CR2 and schema = get_cr2_schema
        and issues = "[no_credit_risk]" and rule_id = "''cr2_rwa_calculation''"
        and target = "''CR2_100_010''"]
  note cr2 = cross_check_defaults
      [where fm = partial_cr2 and k = "''CR2_010_010''"
        and flds = "[example_field ''CR2_010_010'' (PInt 0) (3 / 10)]"
        and template_type = CAPITAL_REQUIREMENTS_CR2 and schema = get_cr2_schema
        and issues = "[no_credit_risk]" and rule_id = "''cr2_rwa_calculation''"
        and target = "''CR2_100_010''"]
  from cr1 missing(1) zero(1) have c1: "calculated_cet1 partial_cr1 = Inr (PInt 150)" by simp
  from cr1 ints(2) totals(2) have c2: "calculated_tier1 partial_cr1 = Inr (PInt 30)" by simp
  from cr1 ints(3) totals(3) have c3: "calculated_own_funds partial_cr1 = Inr (PInt 20)" by simp
  from cr1 missing(2) c1 have c4: "cr1_cet1_check partial_cr1 = Inr []"
    "cr1_minimum_cet1_check partial_cr1 = Inr []" by simp_all
  from cr1 missing(3) c2 have c5: "cr1_tier1_check partial_cr1 = Inr []" by simp
  from cr1 missing(4) c3 have c6: "cr1_own_funds_check partial_cr1 = Inr []" by simp
  from cr1 ints(4) missing(2,3,4) have c7: "validate_cr1_rules partial_cr1 = Inr []" by blast
  from cr2 missing(6) zero(2,3) have d1:
    "calculated_rwa partial_cr2 = Inr (PFloat (Finite 375))"
    "cr2_credit_risk_check partial_cr2 = [no_credit_risk]" by simp_all
  from cr2 missing(7) d1(1) have d2: "cr2_rwa_check partial_cr2 = Inr []" by simp
  from cr1 only_credit_std_zero_cross target not_supplied
  have e1: "\<not> (\<exists>i \<in> set [no_credit_risk]. rule i = ''cr2_rwa_calculation'')" by blast
  from cr1 have e2:
    "value_map [example_field ''CR2_010_010'' (PInt 0) (3 / 10)] ''CR1_030_010'' = None"
    by simp
  from zero c1 c2 c3 c4 c5 c6 c7 d1 d2 only_credit_std_zero_cross target e1 e2
  show ?thesis by simp
qed

end
